theory Spec2Isabelle
  imports Main "HOL-Library.AList" "HOL-Library.Char_ord" "HOL-Library.List_Lexorder"
begin

text \<open>
  A Figma plugin that copies the selected element to a page of the same file, or to a page
  of another file by way of a comment posted to that file, which the plugin running there
  finds, rebuilds and deletes. The main file of the plugin comes in two versions; the later
  one, which has the relay through comments, is the one modelled (\<^verbatim>\<open>handleTransfer\<close> is the
  same in both). The Figma API, \<^verbatim>\<open>fetch\<close> and the JSON functions are parameters.
\<close>

section \<open>JavaScript values\<close>

text \<open>
  The serialized node, the transfer envelope and the bodies of the HTTP responses are
  values of type \<^verbatim>\<open>any\<close> in the plugin. They are modelled as one datatype of JavaScript
  values. \<open>JUndef\<close> is \<^verbatim>\<open>undefined\<close>. Numbers are carried around unchanged by the code; the
  only thing it asks of a number is whether it is zero (truthiness), so they are integers
  here. An object is an association list; the first binding of a key is the one read.
\<close>

datatype json = JUndef | JNull | JBool bool | JNum int | JStr string
  | JArr "json list" | JObj "(string \<times> json) list"

fun truthy :: "json \<Rightarrow> bool" where
  "truthy JUndef = False"
| "truthy JNull = False"
| "truthy (JBool b) = b"
| "truthy (JNum n) = (n \<noteq> 0)"
| "truthy (JStr s) = (s \<noteq> [])"
| "truthy (JArr xs) = True"
| "truthy (JObj kvs) = True"

text \<open>Reading a property of \<^verbatim>\<open>null\<close> or \<^verbatim>\<open>undefined\<close> throws a TypeError; on every
  other value a property that is not there reads as \<^verbatim>\<open>undefined\<close>.\<close>

definition nullish :: "json \<Rightarrow> bool" where
  "nullish v = (v = JUndef \<or> v = JNull)"

fun jget :: "json \<Rightarrow> string \<Rightarrow> json" where
  "jget (JObj kvs) k = (case map_of kvs k of Some v \<Rightarrow> v | None \<Rightarrow> JUndef)"
| "jget v k = JUndef"

text \<open>\<^verbatim>\<open>for (const x of v)\<close>: arrays and strings are iterable, every other value makes the
  loop throw a TypeError. A string yields its code points, one string each. Strings are
  UTF-8 here, so a code point is a lead byte with the continuation bytes it announces (a
  byte that is no lead byte stands alone).\<close>

definition utf8_length :: "char \<Rightarrow> nat" where
  "utf8_length c =
     (if (of_char c :: nat) < 0x80 then 1
      else if 0xC0 \<le> (of_char c :: nat) \<and> (of_char c :: nat) < 0xE0 then 2
      else if 0xE0 \<le> (of_char c :: nat) \<and> (of_char c :: nat) < 0xF0 then 3
      else if 0xF0 \<le> (of_char c :: nat) \<and> (of_char c :: nat) < 0xF8 then 4
      else 1)"

fun code_points :: "string \<Rightarrow> string list" where
  "code_points [] = []"
| "code_points (c # cs) =
     (c # take (utf8_length c - 1) cs) # code_points (drop (utf8_length c - 1) cs)"

fun iterable :: "json \<Rightarrow> bool" where
  "iterable (JArr xs) = True"
| "iterable (JStr s) = True"
| "iterable v = False"

fun elements :: "json \<Rightarrow> json list" where
  "elements (JArr xs) = xs"
| "elements (JStr s) = map JStr (code_points s)"
| "elements v = []"

text \<open>\<^verbatim>\<open>a || b\<close>\<close>

definition js_or :: "json \<Rightarrow> json \<Rightarrow> json" where
  "js_or a b = (if truthy a then a else b)"

section \<open>Effects: exceptions, state and the trace of observable calls\<close>

datatype error = TypeError | Error string | HostError | NetworkError | SyntaxError

text \<open>A request of the plugin to the REST API: file key first, token last.\<close>

datatype request =
    GetFile string json
  | PostComment string string json
  | GetComments string json
  | DeleteComment string json json

datatype response = Response (ok: bool) (body: json)

datatype ui_msg =
    UiError string
  | UiProgress nat string
  | UiComplete bool string

datatype event =
    Log string
  | LogError string
  | Ui ui_msg
  | Notify string
  | Net request

text \<open>
  An \<^verbatim>\<open>async\<close> function is a state transformer that ends with a value or with a thrown
  error, and emits the calls an observer sees: console output, messages to the UI panel,
  notifications and HTTP requests. The effects of the statements run before a throw stay.
\<close>

type_synonym ('s, 'a) prog = "'s \<Rightarrow> (error + 'a) \<times> 's \<times> event list"

definition ret :: "'a \<Rightarrow> ('s, 'a) prog" where
  "ret a s = (Inr a, s, [])"

definition throw :: "error \<Rightarrow> ('s, 'a) prog" where
  "throw e s = (Inl e, s, [])"

definition emit :: "event \<Rightarrow> ('s, unit) prog" where
  "emit ev s = (Inr (), s, [ev])"

definition gets :: "('s \<Rightarrow> 'a) \<Rightarrow> ('s, 'a) prog" where
  "gets f s = (Inr (f s), s, [])"

definition modify :: "('s \<Rightarrow> 's) \<Rightarrow> ('s, unit) prog" where
  "modify f s = (Inr (), f s, [])"

definition andThen :: "('s, 'a) prog \<Rightarrow> ('a \<Rightarrow> ('s, 'b) prog) \<Rightarrow> ('s, 'b) prog" where
  "andThen m f s =
     (case m s of
        (Inl e, s1, t1) \<Rightarrow> (Inl e, s1, t1)
      | (Inr a, s1, t1) \<Rightarrow> (case f a s1 of (r, s2, t2) \<Rightarrow> (r, s2, t1 @ t2)))"

definition seq :: "('s, unit) prog \<Rightarrow> ('s, 'b) prog \<Rightarrow> ('s, 'b) prog" where
  "seq m n = andThen m (\<lambda>u. n)"

text \<open>\<^verbatim>\<open>try { m } catch (e) { hdl e }\<close>\<close>

definition catch :: "('s, 'a) prog \<Rightarrow> (error \<Rightarrow> ('s, 'a) prog) \<Rightarrow> ('s, 'a) prog" where
  "catch m hdl s =
     (case m s of
        (Inl e, s1, t1) \<Rightarrow> (case hdl e s1 of (r, s2, t2) \<Rightarrow> (r, s2, t1 @ t2))
      | (Inr a, s1, t1) \<Rightarrow> (Inr a, s1, t1))"

fun block :: "('s, unit) prog list \<Rightarrow> ('s, unit) prog" where
  "block [] = ret ()"
| "block (m # ms) = seq m (block ms)"

definition whenever :: "bool \<Rightarrow> ('s, unit) prog \<Rightarrow> ('s, unit) prog" where
  "whenever b m = (if b then m else ret ())"

section \<open>The host: the document on the receiving side\<close>

text \<open>
  A live element of the document that is being built. \<open>props\<close> holds the properties the
  element has (\<^verbatim>\<open>"x" in node\<close> is membership of the key), \<open>kids\<close> is \<open>None\<close> for an element
  without \<^verbatim>\<open>children\<close> and \<^verbatim>\<open>appendChild\<close>. Elements are referred to by handles, since
  \<^verbatim>\<open>appendChild\<close> mutates the parent and moves the child.
\<close>

record lnode =
  ntype :: string
  props :: "(string \<times> json) list"
  kids :: "nat list option"

record store =
  nodes :: "(nat \<times> lnode) list"
  fresh :: nat
  pages :: "(string \<times> nat) list"
  current :: nat
  selection :: "nat list"
  viewport :: "nat list"
  fonts :: "json list"

text \<open>
  What the plugin cannot decide itself is a parameter: the element each creation primitive
  returns (\<open>None\<close>: the primitive throws), whether a property setter of an element accepts
  a value (given the fonts loaded so far and the element as it is), whether \<^verbatim>\<open>resize\<close>
  accepts its arguments, whether a font loads,
  the answers of the REST API (\<open>None\<close>: the request itself fails), \<^verbatim>\<open>JSON.parse\<close>
  (\<open>None\<close>: SyntaxError), \<^verbatim>\<open>JSON.stringify\<close>, the clock, the client storage, and the key
  and name of the open file.
\<close>

record 'n host =
  figma_fileKey :: "string option"
  figma_root_name :: string
  clientStorage :: "string \<Rightarrow> json"
  fetch :: "request \<Rightarrow> response option"
  json_parse :: "string \<Rightarrow> json option"
  json_stringify :: "json \<Rightarrow> string"
  now_iso :: string
  template :: "string \<Rightarrow> lnode option"
  accepts :: "json list \<Rightarrow> lnode \<Rightarrow> string \<Rightarrow> json \<Rightarrow> bool"
  resize_ok :: "lnode \<Rightarrow> json \<Rightarrow> json \<Rightarrow> bool"
  font_ok :: "json \<Rightarrow> bool"
  clone_of :: "'n \<Rightarrow> 'n"
  new_page_id :: string

definition lookup :: "store \<Rightarrow> nat \<Rightarrow> lnode option" where
  "lookup s k = map_of (nodes s) k"

definition has_prop :: "string \<Rightarrow> nat \<Rightarrow> store \<Rightarrow> bool" where
  "has_prop p k s = (case lookup s k of None \<Rightarrow> False | Some n \<Rightarrow> map_of (props n) p \<noteq> None)"

definition has_appendChild :: "nat \<Rightarrow> store \<Rightarrow> bool" where
  "has_appendChild k s = (case lookup s k of None \<Rightarrow> False | Some n \<Rightarrow> kids n \<noteq> None)"

definition kids_of :: "store \<Rightarrow> nat \<Rightarrow> nat list" where
  "kids_of s k = (case lookup s k of Some n \<Rightarrow> (case kids n of Some cs \<Rightarrow> cs | None \<Rightarrow> []) | None \<Rightarrow> [])"

definition prop_of :: "store \<Rightarrow> nat \<Rightarrow> string \<Rightarrow> json" where
  "prop_of s k p = (case lookup s k of Some n \<Rightarrow> jget (JObj (props n)) p | None \<Rightarrow> JUndef)"

text \<open>An element has one parent: appending it somewhere takes it out of where it was.\<close>

definition detach :: "nat \<Rightarrow> store \<Rightarrow> store" where
  "detach c s = s\<lparr>nodes := map (\<lambda>(k, n). (k, n\<lparr>kids := map_option (filter (\<lambda>x. x \<noteq> c)) (kids n)\<rparr>)) (nodes s)\<rparr>"

definition attach :: "nat \<Rightarrow> nat \<Rightarrow> store \<Rightarrow> store" where
  "attach p c s = s\<lparr>nodes := map (\<lambda>(k, n). (k, if k = p then n\<lparr>kids := map_option (\<lambda>cs. cs @ [c]) (kids n)\<rparr> else n)) (nodes s)\<rparr>"

definition appendChild :: "nat \<Rightarrow> nat \<Rightarrow> (store, unit) prog" where
  "appendChild p c s =
     (if has_appendChild p s then (Inr (), attach p c (detach c s), []) else (Inl TypeError, s, []))"

text \<open>\<^verbatim>\<open>figma.createFrame()\<close> and its siblings: the new element gets a fresh handle and starts
  as the last child of \<open>parent\<close> (the current page, or the page given to \<^verbatim>\<open>figma.group\<close>).\<close>

definition create_node :: "'n host \<Rightarrow> string \<Rightarrow> nat \<Rightarrow> (store, nat) prog" where
  "create_node h kind parent s =
     (case template h kind of
        None \<Rightarrow> (Inl HostError, s, [])
      | Some n \<Rightarrow>
          (Inr (fresh s),
           attach parent (fresh s) (s\<lparr>nodes := AList.update (fresh s) n (nodes s), fresh := Suc (fresh s)\<rparr>),
           []))"

definition assign :: "'n host \<Rightarrow> nat \<Rightarrow> string \<Rightarrow> json \<Rightarrow> (store, unit) prog" where
  "assign h k p v s =
     (case lookup s k of
        None \<Rightarrow> (Inl HostError, s, [])
      | Some n \<Rightarrow>
          if accepts h (fonts s) n p v
          then (Inr (), s\<lparr>nodes := AList.update k (n\<lparr>props := AList.update p v (props n)\<rparr>) (nodes s)\<rparr>, [])
          else (Inl HostError, s, []))"

definition resize :: "'n host \<Rightarrow> nat \<Rightarrow> json \<Rightarrow> json \<Rightarrow> (store, unit) prog" where
  "resize h k w ht s =
     (case lookup s k of
        None \<Rightarrow> (Inl HostError, s, [])
      | Some n \<Rightarrow>
          if resize_ok h n w ht
          then (Inr (), s\<lparr>nodes := AList.update k
                 (n\<lparr>props := AList.update ''height'' ht (AList.update ''width'' w (props n))\<rparr>) (nodes s)\<rparr>, [])
          else (Inl HostError, s, []))"

definition loadFontAsync :: "'n host \<Rightarrow> json \<Rightarrow> (store, unit) prog" where
  "loadFontAsync h f s =
     (if font_ok h f then (Inr (), s\<lparr>fonts := fonts s @ [f]\<rparr>, []) else (Inl HostError, s, []))"

section \<open>Rebuilding a tree: \<^verbatim>\<open>createNodeFromSerialized\<close>\<close>

text \<open>The \<^verbatim>\<open>switch\<close> on \<^verbatim>\<open>nodeData.type\<close>. The first read of \<^verbatim>\<open>nodeData\<close> is in the
  \<^verbatim>\<open>console.log\<close> before it, and throws when the payload is \<^verbatim>\<open>null\<close> or \<^verbatim>\<open>undefined\<close>.\<close>

definition new_node :: "'n host \<Rightarrow> json \<Rightarrow> nat \<Rightarrow> (store, nat option) prog" where
  "new_node h nodeData targetPage =
     (if nullish nodeData then throw TypeError
      else seq (emit (Log ''Creating node from serialized data:''))
        (andThen (gets current) (\<lambda>cur.
           if jget nodeData ''type'' = JStr ''FRAME'' then
             andThen (create_node h ''FRAME'' cur) (\<lambda>c. ret (Some c))
           else if jget nodeData ''type'' = JStr ''RECTANGLE'' then
             andThen (create_node h ''RECTANGLE'' cur) (\<lambda>c. ret (Some c))
           else if jget nodeData ''type'' = JStr ''ELLIPSE'' then
             andThen (create_node h ''ELLIPSE'' cur) (\<lambda>c. ret (Some c))
           else if jget nodeData ''type'' = JStr ''TEXT'' then
             andThen (create_node h ''TEXT'' cur) (\<lambda>c.
               seq (whenever (truthy (jget nodeData ''fontName''))
                      (catch (loadFontAsync h (jget nodeData ''fontName''))
                             (\<lambda>e. emit (Log ''Could not load font:''))))
                   (ret (Some c)))
           else if jget nodeData ''type'' = JStr ''GROUP'' then
             andThen (create_node h ''GROUP'' targetPage) (\<lambda>c. ret (Some c))
           else if jget nodeData ''type'' = JStr ''COMPONENT'' then
             andThen (create_node h ''COMPONENT'' cur) (\<lambda>c. ret (Some c))
           else
             seq (emit (Log ''Unknown node type, creating frame:''))
                 (andThen (create_node h ''FRAME'' cur) (\<lambda>c. ret (Some c))))))"

text \<open>\<^verbatim>\<open>if ("p" in createdNode && nodeData.p !== undefined) createdNode.p = nodeData.p\<close>\<close>

definition copy_if_present :: "'n host \<Rightarrow> json \<Rightarrow> nat \<Rightarrow> string \<Rightarrow> (store, unit) prog" where
  "copy_if_present h nodeData c p =
     andThen (gets (has_prop p c)) (\<lambda>there.
       whenever (there \<and> jget nodeData p \<noteq> JUndef) (assign h c p (jget nodeData p)))"

text \<open>The properties are applied in the order of the source. \<^verbatim>\<open>strokeAlign\<close>,
  \<^verbatim>\<open>fontName\<close>, \<^verbatim>\<open>visible\<close> and \<^verbatim>\<open>locked\<close> are not among them.\<close>

definition apply_properties :: "'n host \<Rightarrow> json \<Rightarrow> nat \<Rightarrow> (store, unit) prog" where
  "apply_properties h nodeData c =
     block
      [assign h c ''name'' (jget nodeData ''name''),
       copy_if_present h nodeData c ''x'',
       copy_if_present h nodeData c ''y'',
       andThen (gets (has_prop ''width'' c)) (\<lambda>there.
         whenever (there \<and> jget nodeData ''width'' \<noteq> JUndef)
           (resize h c (jget nodeData ''width'') (js_or (jget nodeData ''height'') (JNum 100)))),
       copy_if_present h nodeData c ''rotation'',
       copy_if_present h nodeData c ''opacity'',
       copy_if_present h nodeData c ''blendMode'',
       copy_if_present h nodeData c ''fills'',
       copy_if_present h nodeData c ''strokes'',
       copy_if_present h nodeData c ''strokeWeight'',
       copy_if_present h nodeData c ''effects'',
       copy_if_present h nodeData c ''cornerRadius'',
       andThen (gets (\<lambda>s. map_option ntype (lookup s c) = Some ''TEXT'' \<and> has_prop ''characters'' c s)) (\<lambda>text.
         whenever text
           (block
             [whenever (truthy (jget nodeData ''characters''))
                (assign h c ''characters'' (jget nodeData ''characters'')),
              whenever (truthy (jget nodeData ''fontSize''))
                (assign h c ''fontSize'' (jget nodeData ''fontSize''))])),
       andThen (gets (has_prop ''layoutMode'' c)) (\<lambda>there.
         whenever (there \<and> truthy (jget nodeData ''layoutMode''))
           (block
             [assign h c ''layoutMode'' (jget nodeData ''layoutMode''),
              whenever (truthy (jget nodeData ''primaryAxisSizingMode''))
                (assign h c ''primaryAxisSizingMode'' (jget nodeData ''primaryAxisSizingMode'')),
              whenever (truthy (jget nodeData ''counterAxisSizingMode''))
                (assign h c ''counterAxisSizingMode'' (jget nodeData ''counterAxisSizingMode'')),
              whenever (jget nodeData ''paddingLeft'' \<noteq> JUndef)
                (assign h c ''paddingLeft'' (jget nodeData ''paddingLeft'')),
              whenever (jget nodeData ''paddingRight'' \<noteq> JUndef)
                (assign h c ''paddingRight'' (jget nodeData ''paddingRight'')),
              whenever (jget nodeData ''paddingTop'' \<noteq> JUndef)
                (assign h c ''paddingTop'' (jget nodeData ''paddingTop'')),
              whenever (jget nodeData ''paddingBottom'' \<noteq> JUndef)
                (assign h c ''paddingBottom'' (jget nodeData ''paddingBottom'')),
              whenever (jget nodeData ''itemSpacing'' \<noteq> JUndef)
                (assign h c ''itemSpacing'' (jget nodeData ''itemSpacing''))]))]"

text \<open>The function itself, with the loop over \<^verbatim>\<open>nodeData.children\<close> as its mutually
  recursive companion. The whole body is inside \<^verbatim>\<open>try\<close>; the handler logs and returns
  \<^verbatim>\<open>null\<close>.\<close>

function createNodeFromSerialized :: "'n host \<Rightarrow> json \<Rightarrow> nat \<Rightarrow> (store, nat option) prog"
  and create_children :: "'n host \<Rightarrow> json list \<Rightarrow> nat \<Rightarrow> nat \<Rightarrow> (store, unit) prog"
where
  "createNodeFromSerialized h nodeData targetPage =
     catch
       (andThen (new_node h nodeData targetPage) (\<lambda>createdNode.
          case createdNode of
            None \<Rightarrow> seq (emit (Log ''Failed to create node of type:'')) (ret None)
          | Some c \<Rightarrow>
              seq (block
                [emit (Log ''Node created, applying properties...''),
                 apply_properties h nodeData c,
                 andThen (gets (has_appendChild c)) (\<lambda>can.
                   whenever (truthy (jget nodeData ''children'') \<and> can)
                     (seq (emit (Log ''Creating children:''))
                        (if iterable (jget nodeData ''children'')
                         then create_children h (elements (jget nodeData ''children'')) c targetPage
                         else throw TypeError))),
                 emit (Log ''Adding node to target page''),
                 appendChild targetPage c])
                (ret (Some c))))
       (\<lambda>error. seq (emit (LogError ''Error creating node from serialized:'')) (ret None))"
| "create_children h [] parent targetPage = ret ()"
| "create_children h (childData # rest) parent targetPage =
     andThen (createNodeFromSerialized h childData targetPage) (\<lambda>childNode.
       seq (case childNode of
              None \<Rightarrow> ret ()
            | Some k \<Rightarrow>
                andThen (gets (has_appendChild parent)) (\<lambda>can.
                  whenever can (appendChild parent k)))
           (create_children h rest parent targetPage))"
  by pat_completeness auto

text \<open>The measure of the recursion: the size of the largest payload still to be rebuilt.\<close>

fun maxsize :: "json list \<Rightarrow> nat" where
  "maxsize [] = 0"
| "maxsize (x # xs) = max (Suc (size x)) (maxsize xs)"

section \<open>Strings\<close>

text \<open>\<^verbatim>\<open>s.startsWith(p)\<close>, and \<^verbatim>\<open>s.replace(pat, rep)\<close> with a string pattern, which replaces
  the first occurrence only.\<close>

fun startsWith :: "string \<Rightarrow> string \<Rightarrow> bool" where
  "startsWith s [] = True"
| "startsWith [] (p # ps) = False"
| "startsWith (c # cs) (p # ps) = (c = p \<and> startsWith cs ps)"

fun replace_first :: "string \<Rightarrow> string \<Rightarrow> string \<Rightarrow> string" where
  "replace_first [] pat rep = (if pat = [] then rep else [])"
| "replace_first (c # cs) pat rep =
     (if startsWith (c # cs) pat then rep @ drop (length pat) (c # cs)
      else c # replace_first cs pat rep)"

definition marker :: string where
  "marker = ''[FIGMA_DESIGN_TRANSFER]''"

definition newline :: string where
  "newline = [CHR 0x0A]"

definition dquote :: string where
  "dquote = [CHR 0x22]"

definition check_mark :: string where
  "check_mark = [CHR 0xE2, CHR 0x9C, CHR 0x93]"

text \<open>Decimal digits, and \<^verbatim>\<open>parts.join(sep)\<close>.\<close>

fun show_nat :: "nat \<Rightarrow> string" where
  "show_nat n = (if n < 10 then [char_of (48 + n)] else show_nat (n div 10) @ [char_of (48 + n mod 10)])"

declare show_nat.simps [simp del]

definition show_int :: "int \<Rightarrow> string" where
  "show_int i = (if i < 0 then ''-'' @ show_nat (nat (- i)) else show_nat (nat i))"

fun join :: "string \<Rightarrow> string list \<Rightarrow> string" where
  "join sep [] = []"
| "join sep [x] = x"
| "join sep (x # y # ys) = x @ sep @ join sep (y # ys)"

text \<open>A value inside a template literal.\<close>

fun js_string :: "json \<Rightarrow> string" where
  "js_string JUndef = ''undefined''"
| "js_string JNull = ''null''"
| "js_string (JBool b) = (if b then ''true'' else ''false'')"
| "js_string (JNum n) = show_int n"
| "js_string (JStr s) = s"
| "js_string (JArr xs) = join '','' (map (\<lambda>x. if nullish x then [] else js_string x) xs)"
| "js_string (JObj kvs) = ''[object Object]''"

text \<open>\<^verbatim>\<open>JSON.stringify\<close> as the concrete hosts below have it, for values whose strings hold no
  control character other than the line feed: a property that is \<^verbatim>\<open>undefined\<close> is left out
  of an object and printed as \<^verbatim>\<open>null\<close> in an array.\<close>

definition quoted :: "string \<Rightarrow> string" where
  "quoted s = dquote @ concat (map (\<lambda>c. if c = CHR 0x22 then [CHR 0x5C, CHR 0x22]
                                         else if c = CHR 0x5C then [CHR 0x5C, CHR 0x5C]
                                         else if c = CHR 0x0A then [CHR 0x5C, CHR ''n'']
                                         else [c]) s) @ dquote"

fun stringify :: "json \<Rightarrow> string" where
  "stringify JUndef = ''null''"
| "stringify JNull = ''null''"
| "stringify (JBool b) = (if b then ''true'' else ''false'')"
| "stringify (JNum n) = show_int n"
| "stringify (JStr s) = quoted s"
| "stringify (JArr xs) = ''['' @ join '','' (map stringify xs) @ '']''"
| "stringify (JObj kvs) =
     ''{'' @ join '','' (map (\<lambda>(k, v). quoted k @ '':'' @ stringify v) (filter (\<lambda>(k, v). v \<noteq> JUndef) kvs)) @ ''}''"

text \<open>\<^verbatim>\<open>error instanceof Error ? error.message : ...\<close>: everything thrown here is an Error;
  the text of an error raised by the engine or the host is theirs.\<close>

fun message_of :: "error \<Rightarrow> string" where
  "message_of (Error m) = m"
| "message_of TypeError = ''TypeError''"
| "message_of HostError = ''HostError''"
| "message_of NetworkError = ''NetworkError''"
| "message_of SyntaxError = ''SyntaxError''"

section \<open>The polling consumer\<close>

text \<open>\<^verbatim>\<open>await fetch(...)\<close>: the request is observable whether or not it is answered.\<close>

definition do_fetch :: "'n host \<Rightarrow> request \<Rightarrow> ('s, response) prog" where
  "do_fetch h req s =
     (case fetch h req of None \<Rightarrow> (Inl NetworkError, s, [Net req]) | Some r \<Rightarrow> (Inr r, s, [Net req]))"

text \<open>\<^verbatim>\<open>figma.root.children.find((p) => p.id === targetPageId)\<close>\<close>

definition find_page :: "store \<Rightarrow> json \<Rightarrow> nat option" where
  "find_page s targetPageId =
     map_option snd (find (\<lambda>(pid, k). JStr pid = targetPageId) (pages s))"

definition applyPendingTransfer :: "'n host \<Rightarrow> json \<Rightarrow> json \<Rightarrow> (store, unit) prog" where
  "applyPendingTransfer h nodeData targetPageId =
     catch
       (seq (emit (Log ''Applying pending transfer for page:''))
          (andThen (gets (\<lambda>s. find_page s targetPageId)) (\<lambda>targetPage.
             andThen (gets (\<lambda>s. case targetPage of None \<Rightarrow> False
                                  | Some pg \<Rightarrow> map_option ntype (lookup s pg) = Some ''PAGE'')) (\<lambda>is_page.
               case targetPage of
                 None \<Rightarrow> throw (Error (''Target page not found: '' @ js_string targetPageId))
               | Some pg \<Rightarrow>
                   if \<not> is_page then throw (Error (''Target page not found: '' @ js_string targetPageId))
                   else
                     seq (emit (Log ''Target page found:''))
                       (andThen (createNodeFromSerialized h nodeData pg) (\<lambda>createdNode.
                          case createdNode of
                            Some c \<Rightarrow>
                              andThen (gets (\<lambda>s. prop_of s pg ''name'')) (\<lambda>page_name.
                                block
                                 [emit (Log ''Node created successfully:''),
                                  modify (\<lambda>s. s\<lparr>current := pg\<rparr>),
                                  modify (\<lambda>s. s\<lparr>selection := [c]\<rparr>),
                                  modify (\<lambda>s. s\<lparr>viewport := [c]\<rparr>),
                                  emit (Log ''Transfer completed and element selected''),
                                  emit (Notify (check_mark @ '' Transfer applied! Element placed on page '' @ dquote
                                                @ js_string page_name @ dquote))])
                          | None \<Rightarrow> emit (Log ''Failed to create node from serialized data'')))))))
       (\<lambda>error. seq (emit (LogError ''Error applying transfer:'')) (throw error))"

text \<open>\<^verbatim>\<open>data.comments.filter((c) => c.message.startsWith("[FIGMA_DESIGN_TRANSFER]"))\<close>: a
  comment without a string as its message makes the callback throw.\<close>

fun transfer_filter :: "json list \<Rightarrow> error + json list" where
  "transfer_filter [] = Inr []"
| "transfer_filter (c # cs) =
     (if nullish c then Inl TypeError
      else case jget c ''message'' of
        JStr m \<Rightarrow>
          (case transfer_filter cs of
             Inl e \<Rightarrow> Inl e
           | Inr rest \<Rightarrow> Inr (if startsWith m marker then c # rest else rest))
      | other \<Rightarrow> Inl TypeError)"

definition lift :: "error + 'a \<Rightarrow> ('s, 'a) prog" where
  "lift r s = (r, s, [])"

text \<open>The rest of a polling cycle once \<^verbatim>\<open>latestComment\<close> is chosen.\<close>

definition process_latest :: "'n host \<Rightarrow> json \<Rightarrow> (store, unit) prog" where
  "process_latest h latestComment =
     seq (emit (Log ''Processing transfer comment:''))
       (andThen (lift (case json_parse h
                         (replace_first (js_string (jget latestComment ''message'')) (marker @ newline) [])
                       of None \<Rightarrow> Inl SyntaxError | Some v \<Rightarrow> Inr v)) (\<lambda>transferData.
          if nullish transferData then throw TypeError
          else
            block
             [emit (Log ''Transfer data parsed:''),
              applyPendingTransfer h (jget transferData ''nodeData'') (jget transferData ''targetPageId''),
              andThen (do_fetch h (DeleteComment (the (figma_fileKey h))
                                     (jget latestComment ''id'')
                                     (clientStorage h ''figmaApiToken'')))
                      (\<lambda>r. ret ()),
              emit (Log ''Transfer applied and comment deleted'')]))"

definition checkAndApplyPendingTransfers :: "'n host \<Rightarrow> (store, unit) prog" where
  "checkAndApplyPendingTransfers h =
     catch
       (if \<not> truthy (clientStorage h ''figmaApiToken'')
           \<or> figma_fileKey h = None \<or> figma_fileKey h = Some []
        then emit (Log ''No token or fileKey available for transfer check'')
        else
          seq (emit (Log ''Checking for pending transfers...''))
            (andThen (do_fetch h (GetComments (the (figma_fileKey h)) (clientStorage h ''figmaApiToken''))) (\<lambda>response.
               if \<not> ok response then emit (Log ''Failed to fetch comments:'')
               else if nullish (body response) \<or> nullish (jget (body response) ''comments'')
               then throw TypeError
               else
                 seq (emit (Log ''Total comments:''))
                   (andThen (lift (case jget (body response) ''comments'' of
                                     JArr cs \<Rightarrow> transfer_filter cs | other \<Rightarrow> Inl TypeError)) (\<lambda>transferComments.
                      seq (emit (Log ''Transfer comments found:''))
                        (if length transferComments = 0 then emit (Log ''No pending transfers'')
                         else process_latest h (transferComments ! (length transferComments - 1))))))))
       (\<lambda>error. emit (LogError ''Error checking transfers:''))"

text \<open>The HTTP requests among the events of a run, and the errors shown to the user.\<close>

fun net_calls :: "event list \<Rightarrow> request list" where
  "net_calls [] = []"
| "net_calls (Net r # es) = r # net_calls es"
| "net_calls (e # es) = net_calls es"


section \<open>The sending side\<close>

text \<open>The element the user selected, as the plugin reads it: its type, name and id, the
  properties it has, and its children when it can have any.\<close>

datatype snode = SNode (stype: string) (sname: string) (sid: string)
  (sprops: "(string \<times> json) list") (schildren: "snode list option")

definition serial_keys :: "string list" where
  "serial_keys =
     [''visible'', ''locked'',
      ''x'', ''y'', ''width'', ''height'', ''rotation'',
      ''opacity'', ''blendMode'', ''fills'', ''strokes'', ''strokeWeight'', ''strokeAlign'',
      ''effects'', ''cornerRadius'',
      ''characters'', ''fontSize'', ''fontName'',
      ''layoutMode'', ''primaryAxisSizingMode'', ''counterAxisSizingMode'',
      ''paddingLeft'', ''paddingRight'', ''paddingTop'', ''paddingBottom'', ''itemSpacing'']"

text \<open>\<^verbatim>\<open>if ("p" in node) serialized.p = node.p\<close>, for each key in turn.\<close>

definition copy_props :: "string list \<Rightarrow> (string \<times> json) list \<Rightarrow> (string \<times> json) list" where
  "copy_props ks ps = List.map_filter (\<lambda>k. map_option (Pair k) (map_of ps k)) ks"

fun deepSerializeNode :: "snode \<Rightarrow> json" where
  "deepSerializeNode (SNode t n i ps cs) =
     JObj ([(''type'', JStr t), (''name'', JStr n), (''id'', JStr i)]
           @ copy_props serial_keys ps
           @ (case cs of
                None \<Rightarrow> []
              | Some xs \<Rightarrow> [(''children'', JArr (map deepSerializeNode xs))]))"

text \<open>The document on the sending side: pages with their top-level elements. The
  transfer only adds and removes top-level elements, so no handles are needed here.\<close>

record spage =
  page_id :: string
  page_name :: string
  items :: "snode list"

record sdoc =
  spages :: "spage list"
  scurrent :: string
  sselection :: "snode list"
  sviewport :: "snode list"

record transfer_request =
  fileKey :: string
  pageId :: "string option"
  newPageName :: "string option"
  token :: string

text \<open>Truthiness of \<^verbatim>\<open>msg.pageId\<close> (a string or \<^verbatim>\<open>null\<close>) and of \<^verbatim>\<open>msg.newPageName\<close>
  (a string or absent).\<close>

definition given :: "string option \<Rightarrow> bool" where
  "given v = (case v of None \<Rightarrow> False | Some s \<Rightarrow> s \<noteq> [])"

definition opt_json :: "string option \<Rightarrow> json" where
  "opt_json v = (case v of None \<Rightarrow> JNull | Some s \<Rightarrow> JStr s)"

text \<open>\<^verbatim>\<open>node.clone()\<close>: the copy starts as the last element of the current page.\<close>

definition clone :: "snode host \<Rightarrow> snode \<Rightarrow> (sdoc, snode) prog" where
  "clone h node s =
     (Inr (clone_of h node),
      s\<lparr>spages := map (\<lambda>p. if page_id p = scurrent s then p\<lparr>items := items p @ [clone_of h node]\<rparr> else p) (spages s)\<rparr>,
      [])"

text \<open>\<^verbatim>\<open>node.remove()\<close>\<close>

definition remove_item :: "snode \<Rightarrow> sdoc \<Rightarrow> sdoc" where
  "remove_item n s = s\<lparr>spages := map (\<lambda>p. p\<lparr>items := filter (\<lambda>x. sid x \<noteq> sid n) (items p)\<rparr>) (spages s)\<rparr>"

text \<open>\<^verbatim>\<open>targetPage.appendChild(node)\<close>\<close>

definition append_item :: "string \<Rightarrow> snode \<Rightarrow> sdoc \<Rightarrow> sdoc" where
  "append_item pid n s =
     (remove_item n s)\<lparr>spages := map (\<lambda>p. if page_id p = pid then p\<lparr>items := items p @ [n]\<rparr> else p)
                                     (spages (remove_item n s))\<rparr>"

text \<open>\<^verbatim>\<open>figma.createPage()\<close> followed by the assignment of its name.\<close>

definition createPage :: "snode host \<Rightarrow> string \<Rightarrow> (sdoc, string) prog" where
  "createPage h name s =
     (Inr (new_page_id h),
      s\<lparr>spages := spages s @ [\<lparr>page_id = new_page_id h, page_name = name, items = []\<rparr>]\<rparr>,
      [])"

definition page_name_of :: "string \<Rightarrow> sdoc \<Rightarrow> string" where
  "page_name_of pid s = (case find (\<lambda>p. page_id p = pid) (spages s) of None \<Rightarrow> [] | Some p \<Rightarrow> page_name p)"

definition transferWithinCurrentFile :: "snode host \<Rightarrow> snode \<Rightarrow> transfer_request \<Rightarrow> (sdoc, unit) prog" where
  "transferWithinCurrentFile h node msg =
     catch
       (seq (block
          [emit (Ui (UiProgress 10 ''Loading pages...'')),
           emit (Ui (UiProgress 30 ''Cloning element...''))])
         (andThen (clone h node) (\<lambda>clonedNode.
            seq (emit (Ui (UiProgress 50 ''Preparing target page...'')))
              (andThen
                 (if given (newPageName msg) then createPage h (the (newPageName msg))
                  else if given (pageId msg) then
                    andThen (gets (\<lambda>s. find (\<lambda>p. page_id p = the (pageId msg)) (spages s))) (\<lambda>page.
                      case page of
                        None \<Rightarrow> throw (Error ''Target page not found'')
                      | Some p \<Rightarrow> ret (page_id p))
                  else throw (Error ''No target page specified''))
                 (\<lambda>targetPage.
                    andThen (gets (page_name_of targetPage)) (\<lambda>target_name.
                      block
                       [emit (Ui (UiProgress 70 ''Transferring to page...'')),
                        modify (append_item targetPage clonedNode),
                        emit (Ui (UiProgress 90 ''Finalizing...'')),
                        modify (\<lambda>s. s\<lparr>scurrent := targetPage\<rparr>),
                        modify (\<lambda>s. s\<lparr>sselection := [clonedNode]\<rparr>),
                        modify (\<lambda>s. s\<lparr>sviewport := [clonedNode]\<rparr>),
                        emit (Ui (UiProgress 100 ''Transfer complete!'')),
                        emit (Ui (UiComplete True
                               (''Successfully transferred '' @ dquote @ sname node @ dquote
                                @ '' to page '' @ dquote @ target_name @ dquote))),
                        emit (Notify (check_mark @ '' Transferred to '' @ dquote @ target_name @ dquote))]))))))
       (\<lambda>error. seq (emit (Ui (UiComplete False (message_of error)))) (throw error))"

text \<open>\<^verbatim>\<open>fileData.document.children.find((p) => p.id === targetPageId)\<close>\<close>

fun find_by_id :: "json list \<Rightarrow> json \<Rightarrow> error + json" where
  "find_by_id [] i = Inr JUndef"
| "find_by_id (p # ps) i =
     (if nullish p then Inl TypeError
      else if jget p ''id'' = i then Inr p
      else find_by_id ps i)"

definition find_remote_page :: "json \<Rightarrow> json \<Rightarrow> error + json" where
  "find_remote_page fileData targetPageId =
     (if nullish fileData \<or> nullish (jget fileData ''document'') then Inl TypeError
      else case jget (jget fileData ''document'') ''children'' of
             JArr ps \<Rightarrow> find_by_id ps targetPageId
           | other \<Rightarrow> Inl TypeError)"

definition no_write_access :: string where
  "no_write_access = ''Your token does not have file_write permission. Cross-file transfers require write access. Please generate a new token with file_write scope.''"

definition new_pages_unsupported :: string where
  "new_pages_unsupported = ''Creating new pages via API is not supported. Please select an existing page.''"

definition transferToOtherFile :: "snode host \<Rightarrow> snode \<Rightarrow> transfer_request \<Rightarrow> (sdoc, unit) prog" where
  "transferToOtherFile h node msg =
     catch
       (if \<not> truthy (clientStorage h ''tokenScopes'')
           \<or> \<not> truthy (jget (clientStorage h ''tokenScopes'') ''hasWriteAccess'')
        then throw (Error no_write_access)
        else
          seq (emit (Ui (UiProgress 5 ''Starting cross-file transfer...'')))
            (andThen (clone h node) (\<lambda>clonedNode.
               seq (block
                  [emit (Ui (UiProgress 15 ''Preparing element data...'')),
                   emit (Ui (UiProgress 50 ''Validating destination file...''))])
                 (andThen (do_fetch h (GetFile (fileKey msg) (JStr (token msg)))) (\<lambda>fileResponse.
                    seq (emit (Ui (UiProgress 60 ''Accessing destination file...'')))
                      (if \<not> ok fileResponse
                       then throw (Error ''Cannot access destination file. Please verify your token has edit access to this file.'')
                       else if given (newPageName msg)
                       then throw (Error new_pages_unsupported)
                       else
                         andThen (lift (find_remote_page (body fileResponse) (opt_json (pageId msg)))) (\<lambda>targetPage.
                           if \<not> truthy targetPage
                           then throw (Error ''Target page not found in destination file.'')
                           else
                             seq (emit (Ui (UiProgress 70 ''Storing transfer data in destination file...'')))
                               (andThen
                                  (do_fetch h
                                     (PostComment (fileKey msg)
                                        (marker @ newline @ json_stringify h
                                           (JObj [(''type'', JStr ''DESIGN_TRANSFER''),
                                                  (''nodeData'', deepSerializeNode clonedNode),
                                                  (''sourceName'', JStr (sname node)),
                                                  (''sourceFile'', JStr (figma_root_name h)),
                                                  (''targetPageId'', opt_json (pageId msg)),
                                                  (''timestamp'', JStr (now_iso h))]))
                                        (JStr (token msg))))
                                  (\<lambda>commentResponse.
                                     if \<not> ok commentResponse
                                     then throw (Error ''Failed to store transfer data in destination file'')
                                     else
                                       block
                                        [emit (Ui (UiProgress 90 ''Triggering destination file...'')),
                                         modify (remove_item clonedNode),
                                         emit (Ui (UiProgress 100 ''Transfer complete!'')),
                                         emit (Ui (UiComplete True
                                                (check_mark @ '' Element transferred to ''
                                                 @ js_string (jget (body fileResponse) ''name'')
                                                 @ '' - applying automatically...''))),
                                         emit (Notify
                                                (check_mark @ '' Element transferred to '' @ dquote
                                                 @ js_string (jget (body fileResponse) ''name'') @ dquote
                                                 @ '' and will apply automatically''))])))))))))
       (\<lambda>error. seq (emit (Ui (UiComplete False (message_of error)))) (throw error))"


definition handleTransfer :: "snode host \<Rightarrow> transfer_request \<Rightarrow> (sdoc, unit) prog" where
  "handleTransfer h msg =
     andThen (gets sselection) (\<lambda>selection.
       if length selection \<noteq> 1
       then emit (Ui (UiError ''Please select exactly one frame or component''))
       else
         catch
           (if Some (fileKey msg) = figma_fileKey h \<or> fileKey msg = ''current''
            then transferWithinCurrentFile h (selection ! 0) msg
            else transferToOtherFile h (selection ! 0) msg)
           (\<lambda>error. emit (Ui (UiError (''Failed to transfer: '' @ message_of error)))))"

section \<open>Auxiliary notions for the proofs\<close>

text \<open>What \<^verbatim>\<open>createNodeFromSerialized\<close> does once the \<^verbatim>\<open>switch\<close> has produced the element \<open>c\<close>:
  the rest of the \<^verbatim>\<open>try\<close> block under the same handler.\<close>

definition after_new_node :: "'n host \<Rightarrow> json \<Rightarrow> nat \<Rightarrow> nat \<Rightarrow> (store, nat option) prog" where
  "after_new_node h nodeData targetPage c =
     catch
       (seq (block
                [emit (Log ''Node created, applying properties...''),
                 apply_properties h nodeData c,
                 andThen (gets (has_appendChild c)) (\<lambda>can.
                   whenever (truthy (jget nodeData ''children'') \<and> can)
                     (seq (emit (Log ''Creating children:''))
                        (if iterable (jget nodeData ''children'')
                         then create_children h (elements (jget nodeData ''children'')) c targetPage
                         else throw TypeError))),
                 emit (Log ''Adding node to target page''),
                 appendChild targetPage c])
                (ret (Some c)))
       (\<lambda>error. seq (emit (LogError ''Error creating node from serialized:'')) (ret None))"

text \<open>The handles the successive recursive calls of the loop over the children return,
  \<^verbatim>\<open>null\<close> results dropped. Each call starts in the document the previous iteration left.\<close>

fun created_children :: "'n host \<Rightarrow> json list \<Rightarrow> nat \<Rightarrow> nat \<Rightarrow> store \<Rightarrow> nat list" where
  "created_children h [] parent targetPage s = []"
| "created_children h (childData # rest) parent targetPage s =
     (case createNodeFromSerialized h childData targetPage s of
        (Inr (Some k), s1, t) \<Rightarrow>
          k # created_children h rest parent targetPage (fst (snd (appendChild parent k s1)))
      | (r, s1, t) \<Rightarrow> created_children h rest parent targetPage s1)"

text \<open>A run leaves the elements below the handle \<open>b\<close> alone, apart from the target page and
  the current page, and new handles come from the counter.\<close>

definition undisturbed :: "nat \<Rightarrow> nat \<Rightarrow> store \<Rightarrow> store \<Rightarrow> bool" where
  "undisturbed b pg s s' =
     (fresh s \<le> fresh s' \<and> current s' = current s \<and>
      (\<forall>q<b. q \<noteq> pg \<and> q \<noteq> current s \<and> (\<forall>k\<in>set (kids_of s q). k < b)
              \<longrightarrow> lookup s' q = lookup s q))"

definition frames :: "nat \<Rightarrow> nat \<Rightarrow> ('a \<Rightarrow> bool) \<Rightarrow> (store, 'a) prog \<Rightarrow> bool" where
  "frames b pg \<phi> m =
     (\<forall>s r s' t. m s = (r, s', t) \<longrightarrow> b \<le> fresh s \<longrightarrow>
        undisturbed b pg s s' \<and> (\<forall>a. r = Inr a \<longrightarrow> \<phi> a))"

abbreviation anything :: "'a \<Rightarrow> bool" where
  "anything \<equiv> (\<lambda>a. True)"

definition at_least :: "nat \<Rightarrow> nat option \<Rightarrow> bool" where
  "at_least b r = (case r of None \<Rightarrow> True | Some k \<Rightarrow> b \<le> k)"

text \<open>A program that issues no HTTP request, whatever the state it starts in.\<close>

definition quiet :: "('s, 'a) prog \<Rightarrow> bool" where
  "quiet m = (\<forall>s. net_calls (snd (snd (m s))) = [])"

text \<open>The comments \<^verbatim>\<open>filter\<close> keeps.\<close>

definition carries_marker :: "json \<Rightarrow> bool" where
  "carries_marker c = (case jget c ''message'' of JStr m \<Rightarrow> startsWith m marker | other \<Rightarrow> False)"

section \<open>A concrete host and document\<close>

text \<open>A host in which frames and components are containers with auto layout, rectangles,
  ellipses and texts are leaves, and \<^verbatim>\<open>figma.group\<close> of no elements throws. It accepts every
  assignment and loads every font.\<close>

definition frame_props :: "(string \<times> json) list" where
  "frame_props =
     [(''name'', JStr ''Frame''), (''visible'', JBool True), (''locked'', JBool False),
      (''x'', JNum 0), (''y'', JNum 0), (''width'', JNum 100), (''height'', JNum 100),
      (''rotation'', JNum 0), (''opacity'', JNum 1), (''blendMode'', JStr ''PASS_THROUGH''),
      (''fills'', JArr []), (''strokes'', JArr []), (''strokeWeight'', JNum 1),
      (''strokeAlign'', JStr ''INSIDE''), (''effects'', JArr []), (''cornerRadius'', JNum 0),
      (''layoutMode'', JStr ''NONE''), (''primaryAxisSizingMode'', JStr ''AUTO''),
      (''counterAxisSizingMode'', JStr ''FIXED''), (''paddingLeft'', JNum 0),
      (''paddingRight'', JNum 0), (''paddingTop'', JNum 0), (''paddingBottom'', JNum 0),
      (''itemSpacing'', JNum 0)]"

definition shape_props :: "(string \<times> json) list" where
  "shape_props =
     [(''name'', JStr ''Shape''), (''visible'', JBool True), (''locked'', JBool False),
      (''x'', JNum 0), (''y'', JNum 0), (''width'', JNum 100), (''height'', JNum 100),
      (''rotation'', JNum 0), (''opacity'', JNum 1), (''blendMode'', JStr ''PASS_THROUGH''),
      (''fills'', JArr []), (''strokes'', JArr []), (''strokeWeight'', JNum 1),
      (''strokeAlign'', JStr ''INSIDE''), (''effects'', JArr []), (''cornerRadius'', JNum 0)]"

definition text_props :: "(string \<times> json) list" where
  "text_props =
     [(''name'', JStr ''Text''), (''visible'', JBool True), (''locked'', JBool False),
      (''x'', JNum 0), (''y'', JNum 0), (''width'', JNum 0), (''height'', JNum 14),
      (''rotation'', JNum 0), (''opacity'', JNum 1), (''blendMode'', JStr ''PASS_THROUGH''),
      (''fills'', JArr []), (''strokes'', JArr []), (''strokeWeight'', JNum 1),
      (''strokeAlign'', JStr ''OUTSIDE''), (''effects'', JArr []),
      (''characters'', JStr []), (''fontSize'', JNum 12),
      (''fontName'', JObj [(''family'', JStr ''Inter''), (''style'', JStr ''Regular'')])]"

definition example_template :: "string \<Rightarrow> lnode option" where
  "example_template kind =
     (if kind = ''FRAME'' \<or> kind = ''COMPONENT''
        then Some \<lparr>ntype = kind, props = frame_props, kids = Some []\<rparr>
      else if kind = ''RECTANGLE'' \<or> kind = ''ELLIPSE''
        then Some \<lparr>ntype = kind, props = shape_props, kids = None\<rparr>
      else if kind = ''TEXT''
        then Some \<lparr>ntype = kind, props = text_props, kids = None\<rparr>
      else None)"

definition example_host :: "snode host" where
  "example_host =
     \<lparr>figma_fileKey = Some ''DEST'',
      figma_root_name = ''Destination'',
      clientStorage = (\<lambda>k. if k = ''figmaApiToken'' then JStr ''tok''
                            else if k = ''tokenScopes'' then JObj [(''hasReadAccess'', JBool True), (''hasWriteAccess'', JBool True)]
                            else JUndef),
      fetch = (\<lambda>r. None),
      json_parse = (\<lambda>s. None),
      json_stringify = stringify,
      now_iso = ''2024-01-01T00:00:00.000Z'',
      template = example_template,
      accepts = (\<lambda>fs n p v. True),
      resize_ok = (\<lambda>n w ht. True),
      font_ok = (\<lambda>f. True),
      clone_of = (\<lambda>n. n),
      new_page_id = ''9:9''\<rparr>"

text \<open>The same host with the rule of the Figma API for texts: \<^verbatim>\<open>characters\<close> and
  \<^verbatim>\<open>fontSize\<close> can be set only when the font of the element is loaded. In \<open>strict_host\<close>
  fonts load, in \<open>fontless_strict_host\<close> none does.\<close>

definition strict_host :: "snode host" where
  "strict_host =
     example_host
      \<lparr>accepts := (\<lambda>fs n p v. if p = ''characters'' \<or> p = ''fontSize''
                                then jget (JObj (props n)) ''fontName'' \<in> set fs
                                else True)\<rparr>"

definition fontless_strict_host :: "snode host" where
  "fontless_strict_host = strict_host\<lparr>font_ok := (\<lambda>f. False)\<rparr>"

definition example_store :: store where
  "example_store =
     \<lparr>nodes = [(0, \<lparr>ntype = ''PAGE'', props = [(''name'', JStr ''Page 1'')], kids = Some []\<rparr>),
               (1, \<lparr>ntype = ''PAGE'', props = [(''name'', JStr ''Drafts'')], kids = Some []\<rparr>)],
      fresh = 2,
      pages = [(''0:1'', 0), (''7:1'', 1)],
      current = 0,
      selection = [],
      viewport = [],
      fonts = []\<rparr>"

text \<open>A sending document: the page \<open>Page 1\<close> holds a card (a frame with a rectangle and a
  text) and a lone rectangle. The host copies an element under new ids, answers the request
  for the destination file \<open>DEST\<close> with its two pages, and accepts comments.\<close>

definition bg_rect :: snode where
  "bg_rect = SNode ''RECTANGLE'' ''Bg'' ''1:3''
     [(''x'', JNum 0), (''y'', JNum 0), (''width'', JNum 200), (''height'', JNum 80),
      (''strokeAlign'', JStr ''CENTER'')] None"

definition title_text :: snode where
  "title_text = SNode ''TEXT'' ''Title'' ''1:4''
     [(''x'', JNum 8), (''y'', JNum 8), (''characters'', JStr ''Hi''), (''fontSize'', JNum 16),
      (''fontName'', JObj [(''family'', JStr ''Inter''), (''style'', JStr ''Bold'')])] None"

definition card :: snode where
  "card = SNode ''FRAME'' ''Card'' ''1:2''
     [(''x'', JNum 10), (''y'', JNum 20), (''width'', JNum 200), (''height'', JNum 80),
      (''strokeAlign'', JStr ''OUTSIDE'')]
     (Some [bg_rect, title_text])"

fun reid :: "snode \<Rightarrow> snode" where
  "reid (SNode t n i ps cs) = SNode t n (''c'' @ i) ps (map_option (map reid) cs)"

definition dest_file :: json where
  "dest_file =
     JObj [(''name'', JStr ''Destination''),
           (''document'', JObj [(''children'',
              JArr [JObj [(''id'', JStr ''0:1''), (''name'', JStr ''Page 1''), (''type'', JStr ''CANVAS'')],
                    JObj [(''id'', JStr ''7:1''), (''name'', JStr ''Drafts''), (''type'', JStr ''CANVAS'')]])])]"

definition example_sender :: "snode host" where
  "example_sender =
     example_host
      \<lparr>figma_fileKey := Some ''SRC'',
       figma_root_name := ''Source'',
       fetch := (\<lambda>r. case r of
                   GetFile k t \<Rightarrow> Some (if k = ''DEST'' then Response True dest_file else Response False JNull)
                 | PostComment k m t \<Rightarrow> Some (Response True (JObj [(''id'', JStr ''c1'')]))
                 | GetComments k t \<Rightarrow> None
                 | DeleteComment k c t \<Rightarrow> None),
       clone_of := reid\<rparr>"

definition example_doc :: "snode list \<Rightarrow> sdoc" where
  "example_doc sel =
     \<lparr>spages = [\<lparr>page_id = ''0:1'', page_name = ''Page 1'', items = [card, bg_rect]\<rparr>,
                \<lparr>page_id = ''0:2'', page_name = ''Archive'', items = []\<rparr>],
      scurrent = ''0:1'',
      sselection = sel,
      sviewport = []\<rparr>"

definition to_drafts :: transfer_request where
  "to_drafts = \<lparr>fileKey = ''DEST'', pageId = Some ''7:1'', newPageName = None, token = ''tok''\<rparr>"

definition read_only_sender :: "snode host" where
  "read_only_sender =
     example_sender
      \<lparr>clientStorage := (\<lambda>k. if k = ''figmaApiToken'' then JStr ''tok''
                             else if k = ''tokenScopes''
                               then JObj [(''hasReadAccess'', JBool True), (''hasWriteAccess'', JBool False)]
                             else JUndef)\<rparr>"

text \<open>A receiving host. Its feed is a parameter; \<^verbatim>\<open>JSON.parse\<close> is given on the three
  message bodies used below, each the text of the envelope next to it.\<close>

definition envelope :: "json \<Rightarrow> string \<Rightarrow> string \<Rightarrow> json" where
  "envelope nodeData name stamp =
     JObj [(''type'', JStr ''DESIGN_TRANSFER''), (''nodeData'', nodeData),
           (''sourceName'', JStr name), (''sourceFile'', JStr ''Source''),
           (''targetPageId'', JStr ''7:1''), (''timestamp'', JStr stamp)]"

definition newer_envelope :: json where
  "newer_envelope =
     envelope (JObj [(''type'', JStr ''RECTANGLE''), (''name'', JStr ''Newer''), (''id'', JStr ''c1:3'')])
       ''Newer'' ''2024-02-01T00:00:00.000Z''"

definition older_envelope :: json where
  "older_envelope =
     envelope (JObj [(''type'', JStr ''RECTANGLE''), (''name'', JStr ''Older''), (''id'', JStr ''c1:5'')])
       ''Older'' ''2024-01-01T00:00:00.000Z''"

definition group_envelope :: json where
  "group_envelope =
     envelope (JObj [(''type'', JStr ''GROUP''), (''name'', JStr ''Icons''), (''id'', JStr ''c2:1''),
                     (''children'', JArr [])])
       ''Icons'' ''2024-01-01T00:00:00.000Z''"

definition body_newer :: string where
  \<open>body_newer = ''{"type":"DESIGN_TRANSFER","nodeData":{"type":"RECTANGLE","name":"Newer","id":"c1:3"},"sourceName":"Newer","sourceFile":"Source","targetPageId":"7:1","timestamp":"2024-02-01T00:00:00.000Z"}''\<close>

definition body_older :: string where
  \<open>body_older = ''{"type":"DESIGN_TRANSFER","nodeData":{"type":"RECTANGLE","name":"Older","id":"c1:5"},"sourceName":"Older","sourceFile":"Source","targetPageId":"7:1","timestamp":"2024-01-01T00:00:00.000Z"}''\<close>

definition body_group :: string where
  \<open>body_group = ''{"type":"DESIGN_TRANSFER","nodeData":{"type":"GROUP","name":"Icons","id":"c2:1","children":[]},"sourceName":"Icons","sourceFile":"Source","targetPageId":"7:1","timestamp":"2024-01-01T00:00:00.000Z"}''\<close>

definition example_parse :: "string \<Rightarrow> json option" where
  "example_parse text =
     (if text = body_newer then Some newer_envelope
      else if text = body_older then Some older_envelope
      else if text = body_group then Some group_envelope
      else None)"

definition comment :: "string \<Rightarrow> string \<Rightarrow> string \<Rightarrow> json" where
  "comment cid created text =
     JObj [(''id'', JStr cid), (''created_at'', JStr created), (''message'', JStr text)]"

definition example_receiver :: "json list \<Rightarrow> snode host" where
  "example_receiver feed =
     example_host
      \<lparr>fetch := (\<lambda>r. case r of
                   GetFile k t \<Rightarrow> None
                 | PostComment k m t \<Rightarrow> None
                 | GetComments k t \<Rightarrow> Some (Response True (JObj [(''comments'', JArr feed)]))
                 | DeleteComment k c t \<Rightarrow> Some (Response True JNull)),
       json_parse := example_parse\<rparr>"

text \<open>A feed whose first message was created after its second one, and a feed with one
  message whose payload is a group.\<close>

definition newer_first :: "json list" where
  "newer_first =
     [comment ''A'' ''2024-02-01T00:00:05.000Z'' (marker @ newline @ body_newer),
      comment ''N'' ''2024-01-15T00:00:00.000Z'' ''Looks good to me'',
      comment ''B'' ''2024-01-01T00:00:05.000Z'' (marker @ newline @ body_older)]"

definition group_only :: "json list" where
  "group_only = [comment ''G'' ''2024-01-01T00:00:05.000Z'' (marker @ newline @ body_group)]"

text \<open>The payload of a title in Inter Bold and of one in Inter Regular, the font a fresh
  text has, and a document in which a frame with handle 2 waits for its children.\<close>

definition regular_title :: json where
  "regular_title =
     JObj [(''type'', JStr ''TEXT''), (''name'', JStr ''Title''), (''id'', JStr ''c1:4''),
           (''characters'', JStr ''Hi''), (''fontSize'', JNum 16),
           (''fontName'', JObj [(''family'', JStr ''Inter''), (''style'', JStr ''Regular'')])]"

definition title_fields :: "(string \<times> json) list" where
  "title_fields =
     [(''type'', JStr ''TEXT''), (''name'', JStr ''Title''), (''characters'', JStr ''Hi''),
      (''fontSize'', JNum 16),
      (''fontName'', JObj [(''family'', JStr ''Inter''), (''style'', JStr ''Bold'')])]"

definition three_children :: json where
  "three_children =
     JObj [(''type'', JStr ''FRAME''), (''name'', JStr ''Card''), (''id'', JStr ''1:2''),
           (''x'', JNum 10), (''width'', JNum 200), (''height'', JNum 80),
           (''children'', JArr
              [JObj [(''type'', JStr ''RECTANGLE''), (''name'', JStr ''Bg''), (''width'', JNum 200), (''height'', JNum 80)],
               JObj [(''type'', JStr ''GROUP''), (''name'', JStr ''Icons''), (''children'', JArr [])],
               JObj title_fields])]"

definition frame_store :: store where
  "frame_store =
     \<lparr>nodes = [(0, \<lparr>ntype = ''PAGE'', props = [(''name'', JStr ''Page 1'')], kids = Some [2]\<rparr>),
               (1, \<lparr>ntype = ''PAGE'', props = [(''name'', JStr ''Drafts'')], kids = Some []\<rparr>),
               (2, \<lparr>ntype = ''FRAME'', props = frame_props, kids = Some []\<rparr>)],
      fresh = 3,
      pages = [(''0:1'', 0), (''7:1'', 1)],
      current = 0,
      selection = [],
      viewport = [],
      fonts = []\<rparr>"

fun notifications :: "event list \<Rightarrow> string list" where
  "notifications [] = []"
| "notifications (Notify m # es) = m # notifications es"
| "notifications (e # es) = notifications es"

section \<open>Termination of the reconstruction\<close>

lemma size_map_of: "map_of kvs k = Some v \<Longrightarrow> size v < size_list (size_prod (\<lambda>x. 0) size) kvs"
  by (induction kvs) (auto split: if_splits)

lemma maxsize_le: "\<forall>x\<in>set xs. size x < n \<Longrightarrow> maxsize xs \<le> n"
  by (induction xs) (simp_all add: Suc_le_eq)

lemma size_list_elem: "x \<in> set xs \<Longrightarrow> size x < size_list size xs"
  by (induction xs) auto

lemma elements_smaller:
  assumes "x \<in> set (elements (jget d k))"
  shows "size x < size d"
proof (cases d)
  case (JObj kvs)
  show ?thesis
  proof (cases "map_of kvs k")
    case None
    with JObj assms show ?thesis by simp
  next
    case (Some v)
    then have v: "size v < size_list (size_prod (\<lambda>x. 0) size) kvs" by (rule size_map_of)
    from JObj Some assms have "x \<in> set (elements v)" by simp
    then have "size x \<le> size v"
      by (cases v) (auto dest: size_list_elem)
    with v JObj show ?thesis by simp
  qed
qed (use assms in auto)

termination createNodeFromSerialized
proof (relation "inv_image (less_than <*lex*> less_than)
     (\<lambda>x. case x of Inl (h, d, pg) \<Rightarrow> (2 * size d + 2, 0)
                   | Inr (h, cs, par, pg) \<Rightarrow> (2 * maxsize cs + 1, length cs))", goal_cases)
  case 1
  show ?case by (intro wf_inv_image wf_lex_prod wf_less_than)
next
  case (2 h nodeData targetPage)
  have "maxsize (elements (jget nodeData ''children'')) \<le> size nodeData"
    by (rule maxsize_le) (simp add: elements_smaller)
  then show ?case by simp
next
  case 3
  show ?case by (simp add: max_def)
next
  case 4
  show ?case by (simp add: max_def)
qed

lemmas prog_defs = andThen_def seq_def catch_def ret_def throw_def emit_def gets_def
  modify_def whenever_def lift_def

lemma catch_returns:
  assumes "\<And>e s1. \<exists>r s2 t2. hdl e s1 = (Inr r, s2, t2)"
  shows "\<exists>r s' t. catch m hdl s = (Inr r, s', t)"
proof (cases "m s")
  case (fields res s1 t1)
  show ?thesis
  proof (cases res)
    case (Inl e)
    from assms obtain r s2 t2 where "hdl e s1 = (Inr r, s2, t2)" by blast
    with fields Inl show ?thesis by (simp add: catch_def)
  next
    case (Inr a)
    with fields show ?thesis by (simp add: catch_def)
  qed
qed

declare createNodeFromSerialized.simps [simp del]

section \<open>Reconstruction issues no request\<close>

lemma net_calls_append: "net_calls (a @ b) = net_calls a @ net_calls b"
  by (induction a rule: net_calls.induct) simp_all

lemma quiet_basic:
  "quiet (ret a)" "quiet (throw e)" "quiet (gets f)" "quiet (modify g)" "quiet (lift r)"
  "quiet (emit (Log m))" "quiet (emit (LogError m))" "quiet (emit (Notify m))"
  by (simp_all add: quiet_def prog_defs)

lemma quiet_andThen: "quiet m \<Longrightarrow> (\<And>a. quiet (f a)) \<Longrightarrow> quiet (andThen m f)"
  by (auto simp: quiet_def andThen_def net_calls_append split: prod.splits sum.splits)
    (metis snd_conv)+

lemma quiet_seq: "quiet m \<Longrightarrow> quiet n \<Longrightarrow> quiet (seq m n)"
  by (simp add: seq_def quiet_andThen)

lemma quiet_catch: "quiet m \<Longrightarrow> (\<And>e. quiet (f e)) \<Longrightarrow> quiet (catch m f)"
  by (auto simp: quiet_def catch_def net_calls_append split: prod.splits sum.splits)
    (metis snd_conv)+

lemma quiet_whenever: "quiet m \<Longrightarrow> quiet (whenever b m)"
  by (simp add: whenever_def quiet_basic)

lemma quiet_block: "quiet (block [])" "quiet m \<Longrightarrow> quiet (block ms) \<Longrightarrow> quiet (block (m # ms))"
  by (simp_all add: quiet_basic quiet_seq)

lemma quiet_host:
  "quiet (create_node h kind p)" "quiet (assign h k pr v)" "quiet (resize h k w ht)"
  "quiet (loadFontAsync h f)" "quiet (appendChild p c)"
  by (simp_all add: quiet_def create_node_def assign_def resize_def loadFontAsync_def
      appendChild_def split: option.splits)

lemmas quiet_intros = quiet_basic quiet_andThen quiet_seq quiet_catch quiet_whenever
  quiet_block quiet_host

lemma quiet_new_node: "quiet (new_node h d pg)"
  unfolding new_node_def by (intro quiet_intros if_split [where P = quiet, THEN iffD2] conjI impI)

lemma quiet_copy_if_present: "quiet (copy_if_present h d c p)"
  unfolding copy_if_present_def by (intro quiet_intros)

lemma quiet_apply_properties: "quiet (apply_properties h d c)"
  unfolding apply_properties_def by (intro quiet_intros quiet_copy_if_present)

lemma quiet_create:
  "quiet (createNodeFromSerialized h d pg)"
  "quiet (create_children h cs par pg)"
proof (induction h d pg and h cs par pg rule: createNodeFromSerialized_create_children.induct)
  case (1 h nodeData targetPage)
  have loop: "quiet (if iterable (jget nodeData ''children'')
                     then create_children h (elements (jget nodeData ''children'')) c targetPage
                     else throw TypeError)" for c
    using 1 by (simp add: quiet_basic)
  have rest: "quiet (case a of
            None \<Rightarrow> seq (emit (Log ''Failed to create node of type:'')) (ret None)
          | Some c \<Rightarrow>
              seq (block
                [emit (Log ''Node created, applying properties...''),
                 apply_properties h nodeData c,
                 andThen (gets (has_appendChild c)) (\<lambda>can.
                   whenever (truthy (jget nodeData ''children'') \<and> can)
                     (seq (emit (Log ''Creating children:''))
                        (if iterable (jget nodeData ''children'')
                         then create_children h (elements (jget nodeData ''children'')) c targetPage
                         else throw TypeError))),
                 emit (Log ''Adding node to target page''),
                 appendChild targetPage c])
                (ret (Some c)))" for a
  proof (cases a)
    case None
    then show ?thesis by (simp add: quiet_intros)
  next
    case (Some c)
    show ?thesis
      unfolding Some option.case
      by (intro quiet_intros quiet_apply_properties loop)
  qed
  show ?case
    unfolding createNodeFromSerialized.simps
    by (intro quiet_intros quiet_new_node rest)
next
  case (2 h parent targetPage)
  show ?case by (simp add: quiet_intros)
next
  case (3 h childData rest parent targetPage)
  show ?case
    apply (simp)
    apply (intro quiet_intros 3)
    subgoal for a by (cases a) (simp_all add: quiet_intros)
    done
qed

lemma quiet_applyPendingTransfer: "quiet (applyPendingTransfer h d p)"
  unfolding applyPendingTransfer_def
  apply (intro quiet_intros quiet_create)
  subgoal for a b
    apply (cases a)
     apply (simp add: quiet_intros)
    apply (simp)
    apply (intro quiet_intros quiet_create if_split [where P = quiet, THEN iffD2] conjI impI)
    subgoal for pg c by (cases c) (simp_all add: quiet_intros)
    done
  done

lemma transfer_filter_Inr: "transfer_filter cs = Inr tc \<Longrightarrow> tc = filter carries_marker cs"
  by (induction cs arbitrary: tc)
    (auto simp: carries_marker_def split: if_splits json.splits sum.splits)

lemma copy_props_keys: "fst ` set (copy_props ks ps) \<subseteq> set ks"
  by (induction ks) (auto simp: copy_props_def List.map_filter_def)

lemma map_of_copy_props_other: "k \<notin> set ks \<Longrightarrow> map_of (copy_props ks ps) k = None"
  using copy_props_keys [of ks ps] by (auto simp: map_of_eq_None_iff)

section \<open>Reconstruction step by step\<close>

lemma catch_andThen:
  "m s = (Inr a, s1, t1) \<Longrightarrow>
   catch (andThen m k) hdl s = (case catch (k a) hdl s1 of (r, s2, t2) \<Rightarrow> (r, s2, t1 @ t2))"
  by (simp add: catch_def andThen_def split: prod.splits sum.splits)

lemma createNodeFromSerialized_after:
  assumes "new_node h d pg s = (Inr (Some c), s1, t1)"
  shows "createNodeFromSerialized h d pg s
         = (case after_new_node h d pg c s1 of (r, s2, t2) \<Rightarrow> (r, s2, t1 @ t2))"
  unfolding createNodeFromSerialized.simps after_new_node_def
  by (simp add: catch_andThen [of "new_node h d pg" s, OF assms])

lemmas jget_delete = AList.delete_conv'

lemma apply_properties_without_font:
  "apply_properties h (JObj (AList.delete ''fontName'' kvs)) c = apply_properties h (JObj kvs) c"
  by (simp add: apply_properties_def copy_if_present_def jget_delete)

lemma after_new_node_without_font:
  "after_new_node h (JObj (AList.delete ''fontName'' kvs)) pg c = after_new_node h (JObj kvs) pg c"
  by (simp add: after_new_node_def apply_properties_without_font jget_delete)

section \<open>Reconstruction leaves the rest of the document alone\<close>

lemma undisturbed_refl: "undisturbed b pg s s"
  by (simp add: undisturbed_def)

lemma undisturbed_trans:
  "undisturbed b pg s s1 \<Longrightarrow> undisturbed b pg s1 s2 \<Longrightarrow> undisturbed b pg s s2"
  by (auto simp add: undisturbed_def kids_of_def)

lemma frames_basic:
  "\<phi> a \<Longrightarrow> frames b pg \<phi> (ret a)" "frames b pg \<phi> (throw e)" "\<phi> () \<Longrightarrow> frames b pg \<phi> (emit ev)"
  "(\<And>s. \<phi> (f s)) \<Longrightarrow> frames b pg \<phi> (gets f)"
  by (simp_all add: frames_def prog_defs undisturbed_refl)

lemma frames_andThen:
  assumes "frames b pg \<phi> m" and "\<And>a. \<phi> a \<Longrightarrow> frames b pg \<psi> (f a)"
  shows "frames b pg \<psi> (andThen m f)"
  unfolding frames_def
proof (intro allI impI)
  fix s r s' t
  assume run: "andThen m f s = (r, s', t)" and b: "b \<le> fresh s"
  obtain r1 s1 t1 where m: "m s = (r1, s1, t1)" by (cases "m s") blast
  from assms(1) m b have u1: "undisturbed b pg s s1" and p1: "\<And>a. r1 = Inr a \<Longrightarrow> \<phi> a"
    by (auto simp add: frames_def)
  show "undisturbed b pg s s' \<and> (\<forall>a. r = Inr a \<longrightarrow> \<psi> a)"
  proof (cases r1)
    case (Inl e)
    with run m u1 show ?thesis by (auto simp add: andThen_def)
  next
    case (Inr a)
    obtain r2 s2 t2 where f: "f a s1 = (r2, s2, t2)" by (cases "f a s1") blast
    from u1 b have b1: "b \<le> fresh s1" by (simp add: undisturbed_def)
    from assms(2) [OF p1 [OF Inr]] f b1
    have "undisturbed b pg s1 s2" and "\<And>x. r2 = Inr x \<Longrightarrow> \<psi> x"
      by (auto simp add: frames_def)
    with run m Inr f u1 show ?thesis
      by (auto simp add: andThen_def intro: undisturbed_trans)
  qed
qed

lemma frames_weaken: "frames b pg \<phi> m \<Longrightarrow> (\<And>a. \<phi> a \<Longrightarrow> \<psi> a) \<Longrightarrow> frames b pg \<psi> m"
  by (simp add: frames_def)

lemma frames_seq: "frames b pg \<phi> m \<Longrightarrow> frames b pg \<psi> n \<Longrightarrow> frames b pg \<psi> (seq m n)"
  by (simp add: seq_def frames_andThen)

lemma frames_catch:
  assumes "frames b pg \<phi> m" and "\<And>e. frames b pg \<phi> (hdl e)"
  shows "frames b pg \<phi> (catch m hdl)"
  unfolding frames_def
proof (intro allI impI)
  fix s r s' t
  assume run: "catch m hdl s = (r, s', t)" and b: "b \<le> fresh s"
  obtain r1 s1 t1 where m: "m s = (r1, s1, t1)" by (cases "m s") blast
  from assms(1) m b have u1: "undisturbed b pg s s1" and p1: "\<And>a. r1 = Inr a \<Longrightarrow> \<phi> a"
    by (auto simp add: frames_def)
  show "undisturbed b pg s s' \<and> (\<forall>a. r = Inr a \<longrightarrow> \<phi> a)"
  proof (cases r1)
    case (Inr a)
    with run m u1 p1 show ?thesis by (simp add: catch_def)
  next
    case (Inl e)
    obtain r2 s2 t2 where f: "hdl e s1 = (r2, s2, t2)" by (cases "hdl e s1") blast
    from u1 b have b1: "b \<le> fresh s1" by (simp add: undisturbed_def)
    from assms(2) [of e] f b1
    have "undisturbed b pg s1 s2" and "\<And>x. r2 = Inr x \<Longrightarrow> \<phi> x"
      by (auto simp add: frames_def)
    with run m Inl f u1 show ?thesis
      by (auto simp add: catch_def intro: undisturbed_trans)
  qed
qed

lemma frames_whenever: "frames b pg \<phi> m \<Longrightarrow> \<phi> () \<Longrightarrow> frames b pg \<phi> (whenever c m)"
  by (simp add: whenever_def frames_basic)

lemma frames_block:
  "\<phi> () \<Longrightarrow> frames b pg \<phi> (block [])"
  "frames b pg (\<lambda>u. True) m \<Longrightarrow> frames b pg \<phi> (block ms) \<Longrightarrow> frames b pg \<phi> (block (m # ms))"
  by (simp_all add: frames_basic frames_seq)

lemma lookup_update: "lookup (s\<lparr>nodes := AList.update k n (nodes s)\<rparr>) q = (if q = k then Some n else lookup s q)"
  by (simp add: lookup_def AList.update_conv')

lemma map_of_map_entries:
  "map_of (map (\<lambda>(k, n). (k, f k n)) xs) q = map_option (f q) (map_of xs q)"
  by (induction xs) auto

lemma lookup_attach:
  "lookup (attach p c s) q
   = map_option (\<lambda>n. if q = p then n\<lparr>kids := map_option (\<lambda>cs. cs @ [c]) (kids n)\<rparr> else n) (lookup s q)"
  by (simp add: lookup_def attach_def map_of_map_entries)

lemma lookup_detach:
  "lookup (detach c s) q
   = map_option (\<lambda>n. n\<lparr>kids := map_option (filter (\<lambda>x. x \<noteq> c)) (kids n)\<rparr>) (lookup s q)"
  by (simp add: lookup_def detach_def map_of_map_entries)

lemma lookup_attach_other: "q \<noteq> p \<Longrightarrow> lookup (attach p c s) q = lookup s q"
  by (simp add: lookup_attach option.map_ident)

lemma lookup_detach_absent:
  assumes "c \<notin> set (kids_of s q)"
  shows "lookup (detach c s) q = lookup s q"
proof (cases "lookup s q")
  case None
  then show ?thesis by (simp add: lookup_detach)
next
  case (Some n)
  have "map_option (filter (\<lambda>x. x \<noteq> c)) (kids n) = kids n"
    using assms Some by (cases "kids n") (auto simp add: kids_of_def filter_id_conv)
  with Some show ?thesis by (simp add: lookup_detach)
qed

lemma lookup_detach_below:
  "\<forall>k\<in>set (kids_of s q). k < b \<Longrightarrow> b \<le> c \<Longrightarrow> lookup (detach c s) q = lookup s q"
  by (rule lookup_detach_absent) auto

lemma state_fields [simp]:
  "fresh (attach p c s) = fresh s" "current (attach p c s) = current s"
  "fresh (detach c s) = fresh s" "current (detach c s) = current s"
  by (simp_all add: attach_def detach_def)

lemma frames_assign: "b \<le> k \<Longrightarrow> frames b pg (\<lambda>u. True) (assign h k p v)"
  by (auto simp add: frames_def assign_def undisturbed_def lookup_update split: option.splits if_splits)

lemma frames_resize: "b \<le> k \<Longrightarrow> frames b pg (\<lambda>u. True) (resize h k w ht)"
  by (auto simp add: frames_def resize_def undisturbed_def lookup_update split: option.splits if_splits)

lemma frames_appendChild:
  "b \<le> c \<Longrightarrow> b \<le> p \<or> p = pg \<Longrightarrow> frames b pg (\<lambda>u. True) (appendChild p c)"
  by (auto simp add: frames_def appendChild_def undisturbed_def lookup_attach_other
      lookup_detach_below split: if_splits)

lemma frames_step:
  "frames b pg anything m \<Longrightarrow> (\<And>a. frames b pg \<psi> (f a)) \<Longrightarrow> frames b pg \<psi> (andThen m f)"
  by (rule frames_andThen)

lemma frames_plain:
  "frames b pg anything (ret a)" "frames b pg \<phi> (throw e)" "frames b pg anything (emit ev)"
  "frames b pg anything (gets f)"
  by (simp_all add: frames_def prog_defs undisturbed_refl)

lemmas frames_intros = frames_plain frames_step frames_seq frames_catch frames_whenever
  frames_block frames_assign frames_resize frames_appendChild

lemma frames_copy_if_present: "b \<le> c \<Longrightarrow> frames b pg anything (copy_if_present h d c p)"
  unfolding copy_if_present_def by (intro frames_intros) simp_all

lemma frames_apply_properties: "b \<le> c \<Longrightarrow> frames b pg anything (apply_properties h d c)"
  unfolding apply_properties_def by (intro frames_intros frames_copy_if_present) simp_all

lemma lookup_create:
  "lookup (s\<lparr>nodes := AList.update k n (nodes s), fresh := f\<rparr>) q = (if q = k then Some n else lookup s q)"
  by (simp add: lookup_def AList.update_conv')

lemma frames_create_node:
  "frames b pg (\<lambda>k. b \<le> k) (andThen (gets current) (\<lambda>cur. create_node h kind cur))"
  "frames b pg (\<lambda>k. b \<le> k) (create_node h kind pg)"
  by (auto simp add: frames_def prog_defs create_node_def undisturbed_def lookup_attach_other
      lookup_create split: option.splits)

lemma frames_loadFont: "frames b pg anything (loadFontAsync h f)"
  by (simp add: frames_def loadFontAsync_def undisturbed_def lookup_def)

lemma lookup_fonts [simp]: "lookup (s\<lparr>fonts := f\<rparr>) q = lookup s q"
  by (simp add: lookup_def)

lemma frames_new_node: "frames b pg (at_least b) (new_node h d pg)"
  by (auto simp add: frames_def new_node_def prog_defs create_node_def loadFontAsync_def
      undisturbed_def at_least_def lookup_attach_other lookup_create
      split: option.splits if_splits)

lemma new_node_result:
  "new_node h d pg s = (Inr r, s1, t) \<Longrightarrow> r = Some (fresh s) \<and> fresh s1 = Suc (fresh s)"
  by (auto simp add: new_node_def prog_defs create_node_def loadFontAsync_def
      split: option.splits if_splits)

lemma frames_log_null: "frames b pg (at_least b) (seq (emit ev) (ret None))"
  by (simp add: frames_def prog_defs undisturbed_refl at_least_def)

lemma frames_create:
  "frames b pg (at_least b) (createNodeFromSerialized h d pg)"
  "b \<le> par \<Longrightarrow> frames b pg anything (create_children h cs par pg)"
proof (induction h d pg and h cs par pg arbitrary: b and b
    rule: createNodeFromSerialized_create_children.induct)
  case (1 h nodeData targetPage)
  have loop: "frames b targetPage anything
                (if iterable (jget nodeData ''children'')
                 then create_children h (elements (jget nodeData ''children'')) c targetPage
                 else throw TypeError)" if "b \<le> c" for c
    using 1 that by (simp add: frames_plain)
  have rest: "frames b targetPage (at_least b) (case a of
            None \<Rightarrow> seq (emit (Log ''Failed to create node of type:'')) (ret None)
          | Some c \<Rightarrow>
              seq (block
                [emit (Log ''Node created, applying properties...''),
                 apply_properties h nodeData c,
                 andThen (gets (has_appendChild c)) (\<lambda>can.
                   whenever (truthy (jget nodeData ''children'') \<and> can)
                     (seq (emit (Log ''Creating children:''))
                        (if iterable (jget nodeData ''children'')
                         then create_children h (elements (jget nodeData ''children'')) c targetPage
                         else throw TypeError))),
                 emit (Log ''Adding node to target page''),
                 appendChild targetPage c])
                (ret (Some c)))" if "at_least b a" for a
  proof (cases a)
    case None
    then show ?thesis by (simp add: frames_log_null)
  next
    case (Some c)
    with that have c: "b \<le> c" by (simp add: at_least_def)
    have made: "frames b targetPage (at_least b) (ret (Some c))"
      using c by (simp add: frames_def prog_defs undisturbed_refl at_least_def)
    show ?thesis
      unfolding Some option.case
      by (intro frames_seq [where \<phi> = anything] frames_block frames_plain frames_step
          frames_whenever frames_apply_properties frames_appendChild loop made)
        (simp_all add: c)
  qed
  show ?case
    unfolding createNodeFromSerialized.simps
    by (intro frames_catch frames_andThen [OF frames_new_node] rest frames_log_null)
next
  case (2 h parent targetPage)
  show ?case by (simp add: frames_plain)
next
  case (3 h childData rest parent targetPage)
  have adopt: "frames b targetPage anything (case a of
              None \<Rightarrow> ret ()
            | Some k \<Rightarrow>
                andThen (gets (has_appendChild parent)) (\<lambda>can.
                  whenever can (appendChild parent k)))" if "at_least b a" for a
  proof (cases a)
    case None
    then show ?thesis by (simp add: frames_plain)
  next
    case (Some k)
    with that have "b \<le> k" by (simp add: at_least_def)
    with 3(3) show ?thesis
      unfolding Some option.case
      by (intro frames_step frames_plain frames_whenever frames_appendChild) simp_all
  qed
  show ?case
    unfolding create_children.simps
    by (intro frames_andThen [OF "3.IH"(1)] frames_seq [where \<phi> = anything] adopt "3.IH"(2) "3.prems")
qed

lemma createNodeFromSerialized_returns:
  "\<exists>r s' t. createNodeFromSerialized h nodeData targetPage s = (Inr r, s', t)"
  unfolding createNodeFromSerialized.simps
  by (rule catch_returns) (simp add: prog_defs)

lemma frames_after_new_node: "b \<le> c \<Longrightarrow> frames b pg anything (after_new_node h d pg c)"
  unfolding after_new_node_def
  by (intro frames_catch frames_seq [where \<phi> = anything] frames_block frames_plain frames_step
      frames_whenever frames_apply_properties frames_appendChild frames_create(2)
      if_split [where P = "frames b pg anything", THEN iffD2] conjI impI)
    simp_all

lemma after_new_node_result:
  "after_new_node h d pg c s = (Inr (Some k), s', t) \<Longrightarrow> k = c"
  unfolding after_new_node_def
  by (auto simp add: catch_def seq_def andThen_def ret_def emit_def split: prod.splits sum.splits)

lemma created_handle:
  assumes "createNodeFromSerialized h d pg s = (Inr (Some k), s', t)"
  shows "k = fresh s \<and> k < fresh s'"
proof -
  obtain r1 s1 t1 where nn: "new_node h d pg s = (r1, s1, t1)" by (cases "new_node h d pg s") blast
  show ?thesis
  proof (cases r1)
    case (Inl e)
    with nn assms show ?thesis
      by (simp add: createNodeFromSerialized.simps catch_def andThen_def seq_def emit_def ret_def)
  next
    case (Inr rr)
    with nn have c: "rr = Some (fresh s)" and f1: "fresh s1 = Suc (fresh s)"
      using new_node_result by blast+
    from nn Inr c have "new_node h d pg s = (Inr (Some (fresh s)), s1, t1)" by simp
    from createNodeFromSerialized_after [OF this] assms
    obtain t2 where rest: "after_new_node h d pg (fresh s) s1 = (Inr (Some k), s', t2)"
      by (auto split: prod.splits)
    then have k: "k = fresh s" by (rule after_new_node_result)
    from frames_after_new_node [of 0 "fresh s" pg h d] rest have "fresh s1 \<le> fresh s'"
      by (simp add: frames_def undisturbed_def)
    with k f1 show ?thesis by simp
  qed
qed

lemma created_keeps:
  assumes "createNodeFromSerialized h d pg s = (r, s', t)"
    and "q < fresh s" and "q \<noteq> pg" and "q \<noteq> current s" and "\<forall>k\<in>set (kids_of s q). k < fresh s"
  shows "lookup s' q = lookup s q \<and> fresh s \<le> fresh s' \<and> current s' = current s"
  using frames_create(1) [of "fresh s" pg h d] assms
  by (simp add: frames_def undisturbed_def)

lemma adopt_kids:
  assumes "has_appendChild p s" and "k \<notin> set (kids_of s p)"
  shows "kids_of (attach p k (detach k s)) p = kids_of s p @ [k]"
    and "has_appendChild p (attach p k (detach k s))"
  using assms
  by (auto simp add: kids_of_def has_appendChild_def lookup_attach lookup_detach filter_id_conv
      split: option.splits)

lemma process_latest_requests:
  "net_calls (snd (snd (process_latest h c s))) = []
   \<or> net_calls (snd (snd (process_latest h c s)))
       = [DeleteComment (the (figma_fileKey h)) (jget c ''id'') (clientStorage h ''figmaApiToken'')]"
proof -
  have q: "net_calls b = []" if "applyPendingTransfer h d p s1 = (res, a, b)" for d p s1 res a b
    using quiet_applyPendingTransfer [of h d p] that by (auto simp add: quiet_def dest: spec [of _ s1])
  show ?thesis
    by (auto simp add: process_latest_def prog_defs do_fetch_def net_calls_append
        split: option.splits prod.splits sum.splits dest: q)
qed

lemma bodies_are_envelopes:
  "stringify newer_envelope = body_newer"
  "stringify older_envelope = body_older"
  "stringify group_envelope = body_group"
  by code_simp+

section \<open>Reconstruction never throws\<close>

text \<open>
  C10. \<^verbatim>\<open>createNodeFromSerialized\<close> is total and does not throw: for every host, payload,
  target page and document it ends with a value, an element handle or \<^verbatim>\<open>null\<close>, never with
  an error. A payload that is \<^verbatim>\<open>null\<close> or \<^verbatim>\<open>undefined\<close> yields \<^verbatim>\<open>null\<close>.
\<close>

theorem createNodeFromSerialized_never_throws:
  "(\<exists>r s' t. createNodeFromSerialized h nodeData targetPage s = (Inr r, s', t))
   \<and> (nullish nodeData \<longrightarrow>
        createNodeFromSerialized h nodeData targetPage s
          = (Inr None, s, [LogError ''Error creating node from serialized:'']))"
proof
  show "\<exists>r s' t. createNodeFromSerialized h nodeData targetPage s = (Inr r, s', t)"
    unfolding createNodeFromSerialized.simps
    by (rule catch_returns) (simp add: prog_defs)
  show "nullish nodeData \<longrightarrow>
        createNodeFromSerialized h nodeData targetPage s
          = (Inr None, s, [LogError ''Error creating node from serialized:''])"
    by (simp add: createNodeFromSerialized.simps new_node_def prog_defs)
qed

theorem createNodeFromSerialized_never_throws_witness:
  "(\<exists>r s' t. createNodeFromSerialized example_host JNull 1 example_store = (Inr r, s', t))
   \<and> nullish JNull
   \<and> createNodeFromSerialized example_host JNull 1 example_store
        = (Inr None, example_store, [LogError ''Error creating node from serialized:''])"
  using createNodeFromSerialized_never_throws [of example_host JNull 1 example_store]
  by (simp add: nullish_def)

section \<open>Identifiers on the wire\<close>

text \<open>
  C4 (as stated: the wire representation carries no identity field). The serializer
  writes \<^verbatim>\<open>id: node.id\<close> into every node: the card travels with its id \<open>1:2\<close> and its
  first child with \<open>1:3\<close>.
\<close>

theorem deepSerializeNode_carries_id_counterexample:
  "jget (deepSerializeNode card) ''id'' = JStr ''1:2''
   \<and> jget (hd (elements (jget (deepSerializeNode card) ''children''))) ''id'' = JStr ''1:3''"
  by (simp add: card_def bg_rect_def title_text_def serial_keys_def copy_props_def List.map_filter_def)

text \<open>
  C4 (amended). For every element tree, the serialized node has the field \<open>id\<close>, equal to
  the identifier of the element it was made from, and its \<open>children\<close> are the serialized
  children in order, so the same holds at every depth.
\<close>

theorem deepSerializeNode_carries_id:
  "jget (deepSerializeNode n) ''id'' = JStr (sid n)
   \<and> jget (deepSerializeNode n) ''children''
       = (case schildren n of None \<Rightarrow> JUndef | Some cs \<Rightarrow> JArr (map deepSerializeNode cs))"
proof (cases n)
  case (SNode t nm i ps cs)
  have "''children'' \<notin> set serial_keys" by (simp add: serial_keys_def)
  then have "map_of (copy_props serial_keys ps) ''children'' = None"
    by (rule map_of_copy_props_other)
  with SNode show ?thesis
    by (cases cs) (simp_all add: map_add_def)
qed

theorem deepSerializeNode_carries_id_witness:
  "jget (deepSerializeNode title_text) ''id'' = JStr ''1:4''
   \<and> jget (deepSerializeNode title_text) ''children'' = JUndef"
  using deepSerializeNode_carries_id [of title_text]
  by (simp add: title_text_def)

section \<open>The sending side: preconditions\<close>

text \<open>
  C9. The plugin caches a scope record next to the token it has validated, and the
  cross-document path starts by reading that record. With no record cached (nothing was
  validated), or with a record that lacks write access, the transfer ends with the
  authorization error before anything else happens: the document is untouched and the only
  event is the failure message to the panel, so no request at all is sent, and no comment
  is posted. Started from \<^verbatim>\<open>handleTransfer\<close>, the error is shown to the user.
\<close>

theorem transferToOtherFile_without_write_access:
  "\<not> truthy (clientStorage h ''tokenScopes'')
     \<or> \<not> truthy (jget (clientStorage h ''tokenScopes'') ''hasWriteAccess'')
   \<Longrightarrow> transferToOtherFile h node msg s
         = (Inl (Error no_write_access), s, [Ui (UiComplete False no_write_access)])
       \<and> net_calls (snd (snd (transferToOtherFile h node msg s))) = []
       \<and> (length (sselection s) = 1 \<and> Some (fileKey msg) \<noteq> figma_fileKey h \<and> fileKey msg \<noteq> ''current''
            \<longrightarrow> handleTransfer h msg s
                  = (Inr (), s, [Ui (UiComplete False no_write_access),
                                 Ui (UiError (''Failed to transfer: '' @ no_write_access))]))"
  by (auto simp add: transferToOtherFile_def handleTransfer_def prog_defs)

theorem transferToOtherFile_without_write_access_witness:
  "\<not> truthy (jget (clientStorage read_only_sender ''tokenScopes'') ''hasWriteAccess'')
   \<and> net_calls (snd (snd (transferToOtherFile read_only_sender card to_drafts (example_doc [card])))) = []
   \<and> handleTransfer read_only_sender to_drafts (example_doc [card])
       = (Inr (), example_doc [card],
          [Ui (UiComplete False no_write_access),
           Ui (UiError (''Failed to transfer: '' @ no_write_access))])"
proof -
  have ro: "\<not> truthy (jget (clientStorage read_only_sender ''tokenScopes'') ''hasWriteAccess'')"
    by (simp add: read_only_sender_def)
  have sel: "length (sselection (example_doc [card])) = 1
             \<and> Some (fileKey to_drafts) \<noteq> figma_fileKey read_only_sender
             \<and> fileKey to_drafts \<noteq> ''current''"
    by (simp add: example_doc_def to_drafts_def read_only_sender_def example_sender_def)
  from ro have "\<not> truthy (clientStorage read_only_sender ''tokenScopes'')
     \<or> \<not> truthy (jget (clientStorage read_only_sender ''tokenScopes'') ''hasWriteAccess'')" ..
  from transferToOtherFile_without_write_access [OF this, of card to_drafts "example_doc [card]"] ro sel
  show ?thesis by blast
qed




section \<open>The sending side: the copy after a failure\<close>

text \<open>
  C3. The claim: when a cross-document transfer fails after the copy was made, the copy is
  removed from the source document. The code removes it on the successful path only.
  Whenever the scope check has passed and the transfer ends with an error, the document is
  left exactly as \<^verbatim>\<open>node.clone()\<close> made it: the copy is still on the current page.
\<close>

theorem transferToOtherFile_failure_keeps_clone:
  assumes "truthy (clientStorage h ''tokenScopes'')"
    and "truthy (jget (clientStorage h ''tokenScopes'') ''hasWriteAccess'')"
    and "transferToOtherFile h node msg s = (Inl e, s', t)"
  shows "s' = fst (snd (clone h node s))"
  using assms
  by (auto simp add: transferToOtherFile_def prog_defs clone_def do_fetch_def
      split: option.splits if_splits sum.splits prod.splits)

lemma new_page_request_fails:
  "transferToOtherFile example_sender card (to_drafts\<lparr>newPageName := Some ''Inbox''\<rparr>) (example_doc [card])
     = (Inl (Error new_pages_unsupported),
        fst (snd (clone example_sender card (example_doc [card]))),
        [Ui (UiProgress 5 ''Starting cross-file transfer...''),
         Ui (UiProgress 15 ''Preparing element data...''),
         Ui (UiProgress 50 ''Validating destination file...''),
         Net (GetFile ''DEST'' (JStr ''tok'')),
         Ui (UiProgress 60 ''Accessing destination file...''),
         Ui (UiComplete False new_pages_unsupported)])"
  by code_simp

theorem transferToOtherFile_failure_keeps_clone_witness:
  "truthy (clientStorage example_sender ''tokenScopes'')
   \<and> truthy (jget (clientStorage example_sender ''tokenScopes'') ''hasWriteAccess'')
   \<and> fst (transferToOtherFile example_sender card (to_drafts\<lparr>newPageName := Some ''Inbox''\<rparr>) (example_doc [card]))
       = Inl (Error new_pages_unsupported)
   \<and> map sid (items (hd (spages (fst (snd
        (transferToOtherFile example_sender card (to_drafts\<lparr>newPageName := Some ''Inbox''\<rparr>) (example_doc [card])))))))
       = [''1:2'', ''1:3'', ''c1:2'']"
proof -
  have a: "truthy (clientStorage example_sender ''tokenScopes'')"
    and b: "truthy (jget (clientStorage example_sender ''tokenScopes'') ''hasWriteAccess'')"
    by (simp_all add: example_sender_def example_host_def)
  have "fst (snd (transferToOtherFile example_sender card (to_drafts\<lparr>newPageName := Some ''Inbox''\<rparr>) (example_doc [card])))
          = fst (snd (clone example_sender card (example_doc [card])))"
    using transferToOtherFile_failure_keeps_clone [OF a b new_page_request_fails] new_page_request_fails
    by simp
  moreover have "map sid (items (hd (spages (fst (snd (clone example_sender card (example_doc [card]))))))) = [''1:2'', ''1:3'', ''c1:2'']"
    by code_simp
  ultimately show ?thesis using a b new_page_request_fails by simp
qed

section \<open>The polling cycle\<close>

text \<open>What the claim step does, for every host and feed: it takes the last message that
  carries the marker, in the order the endpoint returned the feed, and reads no timestamp.
  The cycle is the fetch of the feed followed by the processing of that one message, and
  the only request it can add is the deletion of that message.\<close>

lemma polling_cycle_takes_last_in_feed:
  assumes "truthy (clientStorage h ''figmaApiToken'')"
    and "figma_fileKey h = Some fk" and "fk \<noteq> []"
    and "fetch h (GetComments fk (clientStorage h ''figmaApiToken'')) = Some (Response True data)"
    and "jget data ''comments'' = JArr cs"
    and "transfer_filter cs = Inr tc" and "tc \<noteq> []"
    and "process_latest h (last tc) s = (r, s', t)"
  shows "tc = filter carries_marker cs
    \<and> checkAndApplyPendingTransfers h s
        = (Inr (), s',
           [Log ''Checking for pending transfers...'',
            Net (GetComments fk (clientStorage h ''figmaApiToken'')),
            Log ''Total comments:'', Log ''Transfer comments found:'']
           @ t @ (case r of Inl e \<Rightarrow> [LogError ''Error checking transfers:''] | Inr u \<Rightarrow> []))
    \<and> (net_calls t = []
        \<or> net_calls t = [DeleteComment fk (jget (last tc) ''id'') (clientStorage h ''figmaApiToken'')])"
proof (intro conjI)
  show "tc = filter carries_marker cs" using assms(6) by (rule transfer_filter_Inr)
  have nn: "\<not> nullish data" using assms(5) by (cases data) (simp_all add: nullish_def)
  have idx: "tc ! (length tc - 1) = last tc" using assms(7) by (simp add: last_conv_nth)
  show "checkAndApplyPendingTransfers h s
        = (Inr (), s',
           [Log ''Checking for pending transfers...'',
            Net (GetComments fk (clientStorage h ''figmaApiToken'')),
            Log ''Total comments:'', Log ''Transfer comments found:'']
           @ t @ (case r of Inl e \<Rightarrow> [LogError ''Error checking transfers:''] | Inr u \<Rightarrow> []))"
    using assms nn idx
    by (cases r) (simp_all add: checkAndApplyPendingTransfers_def prog_defs do_fetch_def nullish_def)
  show "net_calls t = []
        \<or> net_calls t = [DeleteComment fk (jget (last tc) ''id'') (clientStorage h ''figmaApiToken'')]"
    using process_latest_requests [of h "last tc" s] assms(2,8) by simp
qed

text \<open>
  C5. The claim: of the pending transfer messages the cycle claims the one with the later
  \<open>createdAt\<close>. The code means to (\<^verbatim>\<open>// Get the most recent transfer\<close>,
  \<^verbatim>\<open>latestComment\<close>) but takes the last message of the feed instead. In a feed that lists
  the message of February before the one of January, the cycle rebuilds the January
  payload and deletes the January message; the February one stays pending.
\<close>

theorem claim_takes_older_message:
  "js_string (jget (newer_first ! 2) ''created_at'') < js_string (jget (newer_first ! 0) ''created_at'')
   \<and> carries_marker (newer_first ! 0) \<and> carries_marker (newer_first ! 2)
   \<and> net_calls (snd (snd (checkAndApplyPendingTransfers (example_receiver newer_first) example_store)))
       = [GetComments ''DEST'' (JStr ''tok''), DeleteComment ''DEST'' (jget (newer_first ! 2) ''id'') (JStr ''tok'')]
   \<and> prop_of (fst (snd (checkAndApplyPendingTransfers (example_receiver newer_first) example_store))) 2 ''name''
       = JStr ''Older''"
  by code_simp

theorem claim_takes_older_message_witness:
  "jget (newer_first ! 2) ''id'' = JStr ''B''
   \<and> jget (newer_first ! 2) ''created_at'' = JStr ''2024-01-01T00:00:05.000Z''
   \<and> jget (newer_first ! 0) ''created_at'' = JStr ''2024-02-01T00:00:05.000Z''
   \<and> net_calls (snd (snd (checkAndApplyPendingTransfers (example_receiver newer_first) example_store)))
       = [GetComments ''DEST'' (JStr ''tok''), DeleteComment ''DEST'' (JStr ''B'') (JStr ''tok'')]"
  using claim_takes_older_message
  by (simp add: newer_first_def comment_def)

text \<open>
  C2. The claim: when the root element cannot be created, the message stays in the
  feed. With one pending message whose payload is a group, \<^verbatim>\<open>figma.group\<close> throws,
  \<^verbatim>\<open>createNodeFromSerialized\<close> returns \<^verbatim>\<open>null\<close>, \<^verbatim>\<open>applyPendingTransfer\<close> logs that and returns
  normally, and the cycle goes on to delete the message and to log that the transfer was
  applied. Nothing was created.
\<close>

theorem failed_reconstruction_deletes_message:
  "fst (createNodeFromSerialized (example_receiver group_only) (jget group_envelope ''nodeData'')
          1 example_store) = Inr None
   \<and> checkAndApplyPendingTransfers (example_receiver group_only) example_store
       = (Inr (), example_store,
          [Log ''Checking for pending transfers...'',
           Net (GetComments ''DEST'' (JStr ''tok'')),
           Log ''Total comments:'',
           Log ''Transfer comments found:'',
           Log ''Processing transfer comment:'',
           Log ''Transfer data parsed:'',
           Log ''Applying pending transfer for page:'',
           Log ''Target page found:'',
           Log ''Creating node from serialized data:'',
           LogError ''Error creating node from serialized:'',
           Log ''Failed to create node from serialized data'',
           Net (DeleteComment ''DEST'' (JStr ''G'') (JStr ''tok'')),
           Log ''Transfer applied and comment deleted''])"
  by code_simp

theorem failed_reconstruction_deletes_message_witness:
  "net_calls (snd (snd (checkAndApplyPendingTransfers (example_receiver group_only) example_store)))
     = [GetComments ''DEST'' (JStr ''tok''), DeleteComment ''DEST'' (JStr ''G'') (JStr ''tok'')]
   \<and> kids_of (fst (snd (checkAndApplyPendingTransfers (example_receiver group_only) example_store))) 1 = []"
  using failed_reconstruction_deletes_message
  by (simp add: example_store_def kids_of_def lookup_def)

section \<open>The round trip\<close>

text \<open>
  C1. The claim: rebuilding the serialized form of an element gives an element with the
  same attribute groups. The serializer writes \<^verbatim>\<open>strokeAlign\<close> and \<^verbatim>\<open>fontName\<close>, the
  rebuilding code never assigns them. The card has its stroke outside and a title in Inter
  Bold; the rebuilt card has the stroke of a fresh frame, inside, and its title the font of a
  fresh text, Inter Regular. The children are there, in order.
\<close>

theorem round_trip_drops_stroke_alignment:
  "jget (deepSerializeNode card) ''strokeAlign'' = JStr ''OUTSIDE''
   \<and> fst (createNodeFromSerialized example_host (deepSerializeNode card) 1 example_store) = Inr (Some 2)
   \<and> prop_of (fst (snd (createNodeFromSerialized example_host (deepSerializeNode card) 1 example_store))) 2 ''strokeAlign''
       = JStr ''INSIDE''
   \<and> jget (deepSerializeNode title_text) ''fontName''
       = JObj [(''family'', JStr ''Inter''), (''style'', JStr ''Bold'')]
   \<and> kids_of (fst (snd (createNodeFromSerialized example_host (deepSerializeNode card) 1 example_store))) 2 = [3, 4]
   \<and> prop_of (fst (snd (createNodeFromSerialized example_host (deepSerializeNode card) 1 example_store))) 4 ''fontName''
       = JObj [(''family'', JStr ''Inter''), (''style'', JStr ''Regular'')]"
  by code_simp

theorem round_trip_drops_stroke_alignment_witness:
  "prop_of (fst (snd (createNodeFromSerialized example_host (deepSerializeNode card) 1 example_store))) 2 ''strokeAlign''
     \<noteq> jget (deepSerializeNode card) ''strokeAlign''"
  using round_trip_drops_stroke_alignment by simp

section \<open>A font that does not load\<close>

text \<open>The failed load itself is caught where it happens: the \<^verbatim>\<open>switch\<close> still ends with the
  new element, and the run goes on exactly as for the same payload without a font
  reference, with one more console line.\<close>

lemma font_failure_is_swallowed:
  assumes "jget (JObj kvs) ''type'' = JStr ''TEXT''"
    and "truthy (jget (JObj kvs) ''fontName'')"
    and "\<not> font_ok h (jget (JObj kvs) ''fontName'')"
    and "template h ''TEXT'' = Some n"
  shows "fst (new_node h (JObj kvs) pg s) = Inr (Some (fresh s))
    \<and> (\<exists>r s' t.
      createNodeFromSerialized h (JObj kvs) pg s
        = (r, s', Log ''Creating node from serialized data:'' # Log ''Could not load font:'' # t)
    \<and> createNodeFromSerialized h (JObj (AList.delete ''fontName'' kvs)) pg s
        = (r, s', Log ''Creating node from serialized data:'' # t))"
proof -
  obtain s1 where s1: "create_node h ''TEXT'' (current s) s = (Inr (fresh s), s1, [])"
    using assms(4) by (simp add: create_node_def)
  have with_font: "new_node h (JObj kvs) pg s
      = (Inr (Some (fresh s)), s1, [Log ''Creating node from serialized data:'', Log ''Could not load font:''])"
    using assms(1-3) s1 by (simp add: new_node_def nullish_def prog_defs loadFontAsync_def)
  have without_font: "new_node h (JObj (AList.delete ''fontName'' kvs)) pg s
      = (Inr (Some (fresh s)), s1, [Log ''Creating node from serialized data:''])"
    using assms(1) s1 by (simp add: new_node_def nullish_def prog_defs jget_delete)
  obtain r s' t where rest: "after_new_node h (JObj kvs) pg (fresh s) s1 = (r, s', t)"
    by (cases "after_new_node h (JObj kvs) pg (fresh s) s1") blast
  show ?thesis
    using rest with_font
    by (simp add: createNodeFromSerialized_after [OF with_font]
        createNodeFromSerialized_after [OF without_font] after_new_node_without_font)
qed

text \<open>
  C6. The claim: when the font of a Text payload fails to load, the text element is
  still created, its remaining attributes are applied and the node does not fail. The
  code catches the failed load and goes on, but the assignment of \<^verbatim>\<open>characters\<close> that
  follows is not guarded: on a host that sets the characters of a text only when its font
  is loaded, the assignment throws, the outer handler returns \<^verbatim>\<open>null\<close>, and the
  half-built text is left on the current page. With the same payload and the font loading,
  the text is returned with its characters.
\<close>

theorem font_failure_fails_the_node:
  "jget regular_title ''type'' = JStr ''TEXT''
   \<and> \<not> font_ok fontless_strict_host (jget regular_title ''fontName'')
   \<and> fst (createNodeFromSerialized fontless_strict_host regular_title 1 example_store) = Inr None
   \<and> snd (snd (createNodeFromSerialized fontless_strict_host regular_title 1 example_store))
       = [Log ''Creating node from serialized data:'',
          Log ''Could not load font:'',
          Log ''Node created, applying properties...'',
          LogError ''Error creating node from serialized:'']
   \<and> kids_of (fst (snd (createNodeFromSerialized fontless_strict_host regular_title 1 example_store))) 1 = []
   \<and> kids_of (fst (snd (createNodeFromSerialized fontless_strict_host regular_title 1 example_store))) 0 = [2]
   \<and> prop_of (fst (snd (createNodeFromSerialized fontless_strict_host regular_title 1 example_store))) 2 ''characters''
       = JStr []
   \<and> font_ok strict_host (jget regular_title ''fontName'')
   \<and> fst (createNodeFromSerialized strict_host regular_title 1 example_store) = Inr (Some 2)
   \<and> prop_of (fst (snd (createNodeFromSerialized strict_host regular_title 1 example_store))) 2 ''characters''
       = JStr ''Hi''"
  by code_simp

theorem font_failure_fails_the_node_witness:
  "fst (createNodeFromSerialized fontless_strict_host regular_title 1 example_store)
     \<noteq> fst (createNodeFromSerialized strict_host regular_title 1 example_store)
   \<and> prop_of (fst (snd (createNodeFromSerialized fontless_strict_host regular_title 1 example_store))) 2 ''characters''
       \<noteq> jget regular_title ''characters''"
  using font_failure_fails_the_node
  by (simp add: regular_title_def)

section \<open>Children\<close>

text \<open>
  C7. The loop over the children of a payload never aborts: it ends normally whatever
  the children are, and afterwards the children of the new parent are its previous ones
  followed by the elements the recursive calls returned, in payload order, the \<^verbatim>\<open>null\<close>
  results left out. (The parent is an element made earlier in the run: not a page, and its
  handle and those of its children were given out before.) For a frame with three children
  of which the second cannot be created, the frame ends with exactly the two others, and
  the transfer is announced as applied.
\<close>

theorem children_appended_in_payload_order:
  assumes "parent < fresh s" and "parent \<noteq> targetPage" and "parent \<noteq> current s"
    and "\<forall>k\<in>set (kids_of s parent). k < fresh s"
    and "has_appendChild parent s"
  shows "\<exists>s' t. create_children h children parent targetPage s = (Inr (), s', t)
           \<and> kids_of s' parent = kids_of s parent @ created_children h children parent targetPage s"
  using assms
proof (induction children arbitrary: s)
  case Nil
  show ?case by (simp add: ret_def)
next
  case (Cons childData rest)
  obtain r s1 t1 where child: "createNodeFromSerialized h childData targetPage s = (Inr r, s1, t1)"
    using createNodeFromSerialized_returns by blast
  from created_keeps [OF child Cons.prems(1-4)]
  have same: "lookup s1 parent = lookup s parent" and grow: "fresh s \<le> fresh s1"
    and cur: "current s1 = current s" by simp_all
  from same have kids1: "kids_of s1 parent = kids_of s parent"
    and can1: "has_appendChild parent s1 = has_appendChild parent s"
    by (simp_all add: kids_of_def has_appendChild_def)
  show ?case
  proof (cases r)
    case None
    have "\<exists>s' t. create_children h rest parent targetPage s1 = (Inr (), s', t)
           \<and> kids_of s' parent = kids_of s1 parent @ created_children h rest parent targetPage s1"
      using Cons.prems grow cur kids1 can1 by (intro Cons.IH) auto
    then show ?thesis
      using child None kids1 by (auto simp add: andThen_def seq_def ret_def)
  next
    case (Some k)
    with child have k: "k = fresh s" "k < fresh s1" using created_handle by blast+
    with Cons.prems(4) kids1 have fresh_k: "k \<notin> set (kids_of s1 parent)" by auto
    define s2 where "s2 = attach parent k (detach k s1)"
    from Cons.prems(5) can1 have can: "has_appendChild parent s1" by simp
    from adopt_kids [OF can fresh_k]
    have kids2: "kids_of s2 parent = kids_of s parent @ [k]" and can2: "has_appendChild parent s2"
      by (simp_all add: s2_def kids1)
    have "\<exists>s' t. create_children h rest parent targetPage s2 = (Inr (), s', t)
           \<and> kids_of s' parent = kids_of s2 parent @ created_children h rest parent targetPage s2"
      using Cons.prems grow cur kids2 can2 k by (intro Cons.IH) (auto simp add: s2_def)
    then show ?thesis
      using child Some kids2 can
      by (auto simp add: andThen_def seq_def ret_def gets_def whenever_def appendChild_def s2_def)
  qed
qed

lemma three_children_scenario:
  "created_children example_host (elements (jget three_children ''children'')) 2 1 frame_store = [3, 4]
   \<and> fst (applyPendingTransfer example_host three_children (JStr ''7:1'') example_store) = Inr ()
   \<and> kids_of (fst (snd (applyPendingTransfer example_host three_children (JStr ''7:1'') example_store))) 2 = [3, 4]
   \<and> kids_of (fst (snd (applyPendingTransfer example_host three_children (JStr ''7:1'') example_store))) 1 = [2]
   \<and> notifications (snd (snd (applyPendingTransfer example_host three_children (JStr ''7:1'') example_store)))
       = [check_mark @ '' Transfer applied! Element placed on page '' @ dquote @ ''Drafts'' @ dquote]"
  by code_simp

theorem children_appended_in_payload_order_witness:
  "length (elements (jget three_children ''children'')) = 3
   \<and> has_appendChild 2 frame_store
   \<and> (\<exists>s' t. create_children example_host (elements (jget three_children ''children'')) 2 1 frame_store
                 = (Inr (), s', t)
              \<and> kids_of s' 2 = [3, 4])
   \<and> fst (applyPendingTransfer example_host three_children (JStr ''7:1'') example_store) = Inr ()
   \<and> kids_of (fst (snd (applyPendingTransfer example_host three_children (JStr ''7:1'') example_store))) 2 = [3, 4]
   \<and> notifications (snd (snd (applyPendingTransfer example_host three_children (JStr ''7:1'') example_store)))
       = [check_mark @ '' Transfer applied! Element placed on page '' @ dquote @ ''Drafts'' @ dquote]"
proof -
  have pre: "2 < fresh frame_store" "(2::nat) \<noteq> 1" "2 \<noteq> current frame_store"
    "\<forall>k\<in>set (kids_of frame_store 2). k < fresh frame_store" "has_appendChild 2 frame_store"
    by (simp_all add: frame_store_def kids_of_def has_appendChild_def lookup_def)
  have three: "length (elements (jget three_children ''children'')) = 3"
    by (simp add: three_children_def)
  have none: "kids_of frame_store 2 = []"
    by (simp add: frame_store_def kids_of_def lookup_def)
  from children_appended_in_payload_order [OF pre, of example_host "elements (jget three_children ''children'')"]
    three_children_scenario none pre(5) three
  show ?thesis by simp
qed

end
